theory Spec2Isabelle
  imports Complex_Main "HOL-Library.AList" "HOL-Library.Sublist"
begin

section \<open>ServiLocal: a shallow embedding of the server code\<close>

text \<open>
  The development follows the server sources: the in-memory cache wrapper
  (\<^verbatim>\<open>server/cache.ts\<close>), the token helpers (\<^verbatim>\<open>server/auth.ts\<close>), the WebSocket
  registry (\<^verbatim>\<open>server/websocket.ts\<close>), the storage layer (\<^verbatim>\<open>server/storage.ts\<close>)
  over the tables of \<^verbatim>\<open>shared/schema.ts\<close>, the payment and two-factor helpers, and the
  route handlers of \<^verbatim>\<open>server/routes.ts\<close>.  Asynchronous functions are modelled as
  sequential state transformers: the server runs one callback at a time and each handler
  awaits every storage call before the next statement.  A thrown exception (a rejected
  promise) is the \<open>Inl\<close> branch of a sum.
\<close>

subsection \<open>Cache (\<^verbatim>\<open>server/cache.ts\<close>)\<close>

text \<open>
  \<^verbatim>\<open>String.prototype.includes\<close>: the pattern occurs as a contiguous run of code units.
  The empty pattern occurs in every string.
\<close>

fun str_includes :: "'a list \<Rightarrow> 'a list \<Rightarrow> bool" where
  "str_includes [] p = (p = [])"
| "str_includes (c # cs) p = (prefix p (c # cs) \<or> str_includes cs p)"

text \<open>
  The store of a \<^verbatim>\<open>NodeCache\<close> is an object from key to a wrapped value
  \<^verbatim>\<open>{ t, v }\<close>: the value and the time (in milliseconds) at which it expires.  It is
  modelled as an association list, in the order in which \<^verbatim>\<open>Object.keys\<close> lists the keys;
  the fields \<^verbatim>\<open>t\<close> and \<^verbatim>\<open>v\<close> are \<open>entry_t\<close> and \<open>entry_v\<close>.
\<close>

record 'v wrapped =
  entry_t :: int
  entry_v :: 'v

type_synonym 'v node_cache = "(string \<times> 'v wrapped) list"

definition NodeCache_keys :: "'v node_cache \<Rightarrow> string list" where
  "NodeCache_keys data = map fst data"

text \<open>\<^verbatim>\<open>del(keys)\<close> removes each listed key in turn; a key that is not stored is skipped.\<close>

definition NodeCache_del :: "string list \<Rightarrow> 'v node_cache \<Rightarrow> 'v node_cache" where
  "NodeCache_del ks data = fold AList.delete ks data"

text \<open>
  \<^verbatim>\<open>
  invalidatePattern(pattern: string): void {
    const keys = this.cache.keys();
    const matchingKeys = keys.filter(key => key.includes(pattern));
    this.cache.del(matchingKeys);
  }
  \<close>
\<close>

definition invalidatePattern :: "string \<Rightarrow> 'v node_cache \<Rightarrow> 'v node_cache" where
  "invalidatePattern pattern data =
     (let keys = NodeCache_keys data;
          matchingKeys = filter (\<lambda>key. str_includes key pattern) keys
      in NodeCache_del matchingKeys data)"

subsection \<open>Tokens (\<^verbatim>\<open>server/auth.ts\<close>)\<close>

text \<open>
  The JSON web token library is not part of the repository.  A token is modelled by what
  it carries: the claims and the key it was signed with; any other string is
  \<open>Malformed\<close>.  \<^verbatim>\<open>jwt.sign\<close> with \<^verbatim>\<open>expiresIn\<close> adds the claim \<^verbatim>\<open>exp\<close>, counted in
  seconds from the payload's \<^verbatim>\<open>iat\<close>; \<^verbatim>\<open>jwt.verify\<close> throws when the signature does
  not fit the key or when the clock, in whole seconds, has reached \<^verbatim>\<open>exp\<close>.
  Time is \<^verbatim>\<open>Date.now()\<close>, in milliseconds.  The fields of the payload carry the prefix \<open>c_\<close>.
\<close>

record claims =
  c_userId :: int
  c_version :: "int option"
  c_type :: "string option"
  c_iat :: int
  c_exp :: "int option"

datatype token = JWT claims string | Malformed string

datatype jwt_error = JsonWebTokenError | TokenExpiredError

definition jwt_sign :: "claims \<Rightarrow> string \<Rightarrow> int \<Rightarrow> token" where
  "jwt_sign payload secret expiresIn =
     JWT (payload\<lparr>c_exp := Some (c_iat payload + expiresIn)\<rparr>) secret"

definition jwt_verify :: "token \<Rightarrow> string \<Rightarrow> int \<Rightarrow> jwt_error + claims" where
  "jwt_verify tok secret now =
     (case tok of
        Malformed s \<Rightarrow> Inl JsonWebTokenError
      | JWT payload key \<Rightarrow>
          if key \<noteq> secret then Inl JsonWebTokenError
          else (case c_exp payload of
                  None \<Rightarrow> Inr payload
                | Some e \<Rightarrow> if e \<le> now div 1000 then Inl TokenExpiredError else Inr payload))"

text \<open>
  \<^verbatim>\<open>
  export const generateToken = (userId: number, version: number = 1): string => {
    return jwt.sign({ userId, version, iat: Math.floor(Date.now() / 1000) },
                    JWT_SECRET, { expiresIn: '24h' });
  };
  export const generateRefreshToken = (userId: number, version: number = 1): string => {
    return jwt.sign({ userId, version, type: 'refresh', iat: Math.floor(Date.now() / 1000) },
                    JWT_SECRET, { expiresIn: '7d' });
  };
  \<close>
  The secret is read from the environment once, so it is a parameter; an omitted
  \<^verbatim>\<open>version\<close> argument is \<open>None\<close>.
\<close>

definition generateToken :: "string \<Rightarrow> int \<Rightarrow> int option \<Rightarrow> int \<Rightarrow> token" where
  "generateToken JWT_SECRET uid ver now =
     jwt_sign \<lparr>c_userId = uid, c_version = Some (case ver of None \<Rightarrow> 1 | Some n \<Rightarrow> n),
               c_type = None, c_iat = now div 1000, c_exp = None\<rparr>
       JWT_SECRET (24 * 60 * 60)"

definition generateRefreshToken :: "string \<Rightarrow> int \<Rightarrow> int option \<Rightarrow> int \<Rightarrow> token" where
  "generateRefreshToken JWT_SECRET uid ver now =
     jwt_sign \<lparr>c_userId = uid, c_version = Some (case ver of None \<Rightarrow> 1 | Some n \<Rightarrow> n),
               c_type = Some ''refresh'', c_iat = now div 1000, c_exp = None\<rparr>
       JWT_SECRET (7 * 24 * 60 * 60)"

text \<open>
  \<^verbatim>\<open>
  export const verifyToken = (token: string) => {
    try {
      const decoded = jwt.verify(token, JWT_SECRET) as {...};
      // Check if token is too old (force refresh after 12 hours)
      const tokenAge = Date.now() / 1000 - decoded.iat;
      if (tokenAge > 12 * 60 * 60 && decoded.type !== 'refresh') {
        return null; // Force token refresh
      }
      return decoded;
    } catch {
      return null;
    }
  };
  \<close>
  \<^verbatim>\<open>null\<close> is \<open>None\<close>.  The age is a fraction of seconds, so it is a real number.
\<close>

definition verifyToken :: "string \<Rightarrow> token \<Rightarrow> int \<Rightarrow> claims option" where
  "verifyToken JWT_SECRET tok now =
     (case jwt_verify tok JWT_SECRET now of
        Inl e \<Rightarrow> None
      | Inr decoded \<Rightarrow>
          (let tokenAge = real_of_int now / 1000 - real_of_int (c_iat decoded)
           in if tokenAge > 12 * 60 * 60 \<and> c_type decoded \<noteq> Some ''refresh'' then None
              else Some decoded))"

subsection \<open>WebSocket registry (\<^verbatim>\<open>server/websocket.ts\<close>)\<close>

text \<open>
  \<^verbatim>\<open>
  private connections = new Map<string, WebSocket>();
  private userConnections = new Map<string, Set<string>>();
  \<close>
  A socket is an object of the runtime; the model names it by a number.  The user key is
  whatever \<^verbatim>\<open>req.userId\<close> holds, so the registry is polymorphic in it.
\<close>

type_synonym WebSocket = nat

record 'u registry =
  connections :: "string \<rightharpoonup> WebSocket"
  userConnections :: "'u \<rightharpoonup> string set"

definition empty_registry :: "'u registry" where
  "empty_registry = \<lparr>connections = Map.empty, userConnections = Map.empty\<rparr>"

text \<open>
  \<^verbatim>\<open>
  private handleConnection(ws: WebSocket, req: any): void {
    const userId = req.userId;
    const connectionId = this.generateConnectionId();
    this.connections.set(connectionId, ws);
    if (!this.userConnections.has(userId)) {
      this.userConnections.set(userId, new Set());
    }
    this.userConnections.get(userId)!.add(connectionId);
    ...
  \<close>
  \<^verbatim>\<open>generateConnectionId\<close> builds the id from the clock and \<^verbatim>\<open>Math.random\<close>; its
  result is an argument of the model.
\<close>

definition handleConnection :: "'u \<Rightarrow> string \<Rightarrow> WebSocket \<Rightarrow> 'u registry \<Rightarrow> 'u registry" where
  "handleConnection userId connectionId ws r =
     (let conns = (connections r)(connectionId \<mapsto> ws);
          uc = (if userConnections r userId = None then (userConnections r)(userId \<mapsto> {})
                else userConnections r);
          uc' = (case uc userId of
                   Some s \<Rightarrow> uc(userId \<mapsto> insert connectionId s)
                 | None \<Rightarrow> uc)
      in r\<lparr>connections := conns, userConnections := uc'\<rparr>)"

text \<open>
  The handler that \<open>handleConnection\<close> registers for the socket's \<^verbatim>\<open>close\<close> event; it
  closes over \<^verbatim>\<open>userId\<close> and \<^verbatim>\<open>connectionId\<close>.
  \<^verbatim>\<open>
    ws.on('close', () => {
      this.connections.delete(connectionId);
      this.userConnections.get(userId)?.delete(connectionId);
      if (this.userConnections.get(userId)?.size === 0) {
        this.userConnections.delete(userId);
      }
      ...
  \<close>
\<close>

definition handleClose :: "'u \<Rightarrow> string \<Rightarrow> 'u registry \<Rightarrow> 'u registry" where
  "handleClose userId connectionId r =
     (let conns = (connections r)(connectionId := None);
          uc = (case userConnections r userId of
                  Some s \<Rightarrow> (userConnections r)(userId \<mapsto> s - {connectionId})
                | None \<Rightarrow> userConnections r);
          uc' = (case uc userId of
                   Some s \<Rightarrow> if s = {} then uc(userId := None) else uc
                 | None \<Rightarrow> uc)
      in r\<lparr>connections := conns, userConnections := uc'\<rparr>)"

text \<open>
  The invariant of the registry as the specification states it: every connection id in a
  user's set is a key of \<open>connections\<close>, every key of \<open>connections\<close> is in exactly one
  user's set, and no user is mapped to the empty set.
\<close>

definition registry_inv :: "'u registry \<Rightarrow> bool" where
  "registry_inv r \<longleftrightarrow>
     (\<forall>u s c. userConnections r u = Some s \<and> c \<in> s \<longrightarrow> c \<in> dom (connections r))
   \<and> (\<forall>c \<in> dom (connections r). \<exists>!u. \<exists>s. userConnections r u = Some s \<and> c \<in> s)
   \<and> (\<forall>u. userConnections r u \<noteq> Some {})"

text \<open>
  The states the server reaches.  Beside the registry, a state holds the sockets that are
  open, each as the pair its \<^verbatim>\<open>close\<close> handler closes over; a socket emits \<^verbatim>\<open>close\<close>
  once.  A connection is registered under an id that is not a key of \<open>connections\<close> at
  that moment.
\<close>

inductive reachable :: "'u registry \<Rightarrow> ('u \<times> string) set \<Rightarrow> bool" where
  init: "reachable empty_registry {}"
| connect: "reachable r live \<Longrightarrow> c \<notin> dom (connections r) \<Longrightarrow>
     reachable (handleConnection u c ws r) (insert (u, c) live)"
| close: "reachable r live \<Longrightarrow> (u, c) \<in> live \<Longrightarrow>
     reachable (handleClose u c r) (live - {(u, c)})"

text \<open>The connection ids registered for a user, and the invariant with the open sockets.\<close>

definition conns_of :: "'u registry \<Rightarrow> 'u \<Rightarrow> string set" where
  "conns_of r u = (case userConnections r u of None \<Rightarrow> {} | Some s \<Rightarrow> s)"

definition live_inv :: "'u registry \<Rightarrow> ('u \<times> string) set \<Rightarrow> bool" where
  "live_inv r live \<longleftrightarrow>
     (\<forall>u c. (u, c) \<in> live \<longleftrightarrow> c \<in> conns_of r u)
   \<and> (\<forall>u u' c. c \<in> conns_of r u \<and> c \<in> conns_of r u' \<longrightarrow> u = u')
   \<and> (\<forall>c. c \<in> dom (connections r) \<longleftrightarrow> (\<exists>u. c \<in> conns_of r u))
   \<and> (\<forall>u. userConnections r u \<noteq> Some {})"

subsection \<open>Values, errors and columns\<close>

text \<open>
  A string is a list of code units; the characters of the model are the code units below
  256, which hold the accented letters that the source names.

  A field of a JSON request body: a string, an integer, a boolean, \<^verbatim>\<open>null\<close>, or
  absent (\<^verbatim>\<open>undefined\<close>).  An integer is one that a JavaScript number holds exactly and
  writes in full.  \<open>JArray\<close> is an array and \<open>JOther\<close> every other value (a fraction, an
  object); of these the model keeps what the code reads of them, the string form of the
  array's elements and of the value.
\<close>

datatype json =
    Undefined | JNull | JBool bool | JNum int | JStr string
  | JArray "string list" | JOther string

text \<open>
  An optional, nullable property of an insert or update object: left out, \<^verbatim>\<open>null\<close>, or
  a value.
\<close>

datatype 'a field = Absent | Null | Given 'a

text \<open>
  What the code throws: a schema error of the validation library with the fields that
  failed, an error of the database, a \<^verbatim>\<open>TypeError\<close> of the runtime, or
  \<^verbatim>\<open>new Error(message)\<close>.
\<close>

datatype error =
    ZodError "string list"
  | DatabaseError string
  | TypeError string
  | Error string

text \<open>
  A column in \<^verbatim>\<open>insert(...).values(row)\<close>: a property left out takes the column's
  default, \<^verbatim>\<open>null\<close> is stored as NULL.  In \<^verbatim>\<open>update(...).set(row)\<close> a property
  left out keeps the stored value.
\<close>

definition column_default :: "'a option \<Rightarrow> 'a field \<Rightarrow> 'a option" where
  "column_default d f = (case f of Absent \<Rightarrow> d | Null \<Rightarrow> None | Given x \<Rightarrow> Some x)"

definition column_set :: "'a field \<Rightarrow> 'a option \<Rightarrow> 'a option" where
  "column_set f old = (case f of Absent \<Rightarrow> old | Null \<Rightarrow> None | Given x \<Rightarrow> Some x)"

definition int4 :: "int \<Rightarrow> bool" where
  "int4 n \<longleftrightarrow> - 2147483648 \<le> n \<and> n \<le> 2147483647"

text \<open>How the schema checks one field; \<open>None\<close> is a failed check.\<close>

fun zod_string :: "json \<Rightarrow> string option" where
  "zod_string (JStr s) = Some s"
| "zod_string other = None"

fun zod_optional_number :: "json \<Rightarrow> int option option" where
  "zod_optional_number Undefined = Some None"
| "zod_optional_number (JNum n) = Some (Some n)"
| "zod_optional_number other = None"

fun zod_nullish_string :: "json \<Rightarrow> string field option" where
  "zod_nullish_string Undefined = Some Absent"
| "zod_nullish_string JNull = Some Null"
| "zod_nullish_string (JStr s) = Some (Given s)"
| "zod_nullish_string other = None"

fun zod_nullish_boolean :: "json \<Rightarrow> bool field option" where
  "zod_nullish_boolean Undefined = Some Absent"
| "zod_nullish_boolean JNull = Some Null"
| "zod_nullish_boolean (JBool b) = Some (Given b)"
| "zod_nullish_boolean other = None"

text \<open>A timestamp column asks for a \<^verbatim>\<open>Date\<close> object, which no JSON body holds.\<close>

fun zod_nullish_date :: "json \<Rightarrow> int field option" where
  "zod_nullish_date Undefined = Some Absent"
| "zod_nullish_date JNull = Some Null"
| "zod_nullish_date other = None"

definition issue :: "string \<Rightarrow> 'a option \<Rightarrow> string list" where
  "issue name checked = (case checked of None \<Rightarrow> [name] | Some x \<Rightarrow> [])"

subsection \<open>Tables (\<^verbatim>\<open>shared/schema.ts\<close>)\<close>

text \<open>
  Each table is the list of its rows, in insertion order; a timestamp is a number of
  milliseconds.  A column without \<^verbatim>\<open>notNull()\<close> is an option.  The fields carry a
  prefix that names the table.
\<close>

record user =
  u_id :: int
  u_username :: string
  u_email :: string
  u_password :: string
  u_fullName :: "string option"
  u_phone :: "string option"
  u_role :: string
  u_isActive :: bool
  u_createdAt :: int
  u_updatedAt :: int

record category =
  cat_id :: int
  cat_name :: string
  cat_description :: "string option"
  cat_icon :: "string option"
  cat_isActive :: "bool option"
  cat_createdAt :: "int option"
  cat_updatedAt :: "int option"

record service =
  s_id :: int
  s_userId :: string
  s_categoryId :: int
  s_title :: string
  s_description :: "string option"
  s_price :: "int option"
  s_location :: "string option"
  s_contactPhone :: "string option"
  s_contactEmail :: "string option"
  s_availability :: "string option"
  s_isApproved :: "bool option"
  s_isFeatured :: "bool option"
  s_rating :: "string option"
  s_reviewCount :: "int option"
  s_createdAt :: "int option"
  s_updatedAt :: "int option"

datatype ticket_status = Open | In_progress | Resolved | Closed

datatype ticket_priority = Low | Medium | High | Urgent

record ticket =
  t_id :: int
  t_ticketNumber :: string
  t_name :: string
  t_email :: string
  t_subject :: string
  t_message :: string
  t_status :: "ticket_status option"
  t_priority :: "ticket_priority option"
  t_categoryId :: "int option"
  t_adminResponse :: "string option"
  t_createdAt :: "int option"
  t_updatedAt :: "int option"

text \<open>
  The database: the tables the modelled operations touch, the last value of each
  \<^verbatim>\<open>serial\<close> sequence, and the ids of the rows of \<^verbatim>\<open>support_categories\<close>, which a
  ticket's \<^verbatim>\<open>categoryId\<close> refers to.
\<close>

record db =
  users :: "user list"
  users_id_seq :: int
  categories :: "category list"
  categories_id_seq :: int
  services :: "service list"
  supportTickets :: "ticket list"
  supportTickets_id_seq :: int
  supportCategory_ids :: "int list"

subsection \<open>Storage (\<^verbatim>\<open>server/storage.ts\<close>)\<close>

text \<open>
  \<^verbatim>\<open>
  async getUser(id: string): Promise<User | undefined> {
    const [user] = await db.select().from(users).where(eq(users.id, parseInt(id)));
    return user;
  }
  async getUserByUsername(username: string): Promise<User | undefined> {
    const [user] = await db.select().from(users).where(eq(users.username, username));
    return user;
  }
  \<close>
  Every caller passes \<^verbatim>\<open>req.user.id.toString()\<close> to \<open>getUser\<close>, which \<^verbatim>\<open>parseInt\<close>
  reads back as the same integer, so the model takes the integer.
\<close>

definition getUser :: "int \<Rightarrow> db \<Rightarrow> user option" where
  "getUser uid d = find (\<lambda>u. u_id u = uid) (users d)"

definition getUserByUsername :: "string \<Rightarrow> db \<Rightarrow> user option" where
  "getUserByUsername username d = find (\<lambda>u. u_username u = username) (users d)"

definition getUserByEmail :: "string \<Rightarrow> db \<Rightarrow> user option" where
  "getUserByEmail email d = find (\<lambda>u. u_email u = email) (users d)"

text \<open>
  \<^verbatim>\<open>
  async createUser(userData: InsertUser): Promise<User> {
    const [user] = await db.insert(users).values(userData).returning();
    return user;
  }
  \<close>
  The id comes from the sequence, which keeps the value it handed out also when the
  insert fails on a \<^verbatim>\<open>unique()\<close> column.  No caller passes an id or a timestamp.
\<close>

record insert_user =
  iu_username :: string
  iu_email :: string
  iu_password :: string
  iu_fullName :: "string field"
  iu_phone :: "string field"
  iu_role :: "string option"
  iu_isActive :: "bool option"

definition createUser :: "int \<Rightarrow> insert_user \<Rightarrow> db \<Rightarrow> (error + user) \<times> db" where
  "createUser now userData d =
     (let d' = d\<lparr>users_id_seq := users_id_seq d + 1\<rparr>;
          row = \<lparr>u_id = users_id_seq d + 1,
                 u_username = iu_username userData,
                 u_email = iu_email userData,
                 u_password = iu_password userData,
                 u_fullName = column_default None (iu_fullName userData),
                 u_phone = column_default None (iu_phone userData),
                 u_role = (case iu_role userData of None \<Rightarrow> ''user'' | Some r \<Rightarrow> r),
                 u_isActive = (case iu_isActive userData of None \<Rightarrow> True | Some a \<Rightarrow> a),
                 u_createdAt = now,
                 u_updatedAt = now\<rparr>
      in if u_id row \<in> set (map u_id (users d))
            \<or> u_username row \<in> set (map u_username (users d))
            \<or> u_email row \<in> set (map u_email (users d))
         then (Inl (DatabaseError ''unique_violation''), d')
         else (Inr row, d'\<lparr>users := users d @ [row]\<rparr>))"

text \<open>
  \<^verbatim>\<open>
  async createCategory(category: InsertCategory): Promise<Category> {
    const [newCategory] = await db.insert(categories).values(category).returning();
    return newCategory;
  }
  \<close>
\<close>

record insert_category =
  ic_id :: "int option"
  ic_name :: string
  ic_description :: "string field"
  ic_icon :: "string field"
  ic_isActive :: "bool field"
  ic_createdAt :: "int field"
  ic_updatedAt :: "int field"

definition createCategory :: "int \<Rightarrow> insert_category \<Rightarrow> db \<Rightarrow> (error + category) \<times> db" where
  "createCategory now data d =
     (let d' = (case ic_id data of
                  None \<Rightarrow> d\<lparr>categories_id_seq := categories_id_seq d + 1\<rparr>
                | Some n \<Rightarrow> d);
          row = \<lparr>cat_id = (case ic_id data of None \<Rightarrow> categories_id_seq d + 1 | Some n \<Rightarrow> n),
                 cat_name = ic_name data,
                 cat_description = column_default None (ic_description data),
                 cat_icon = column_default None (ic_icon data),
                 cat_isActive = column_default (Some True) (ic_isActive data),
                 cat_createdAt = column_default (Some now) (ic_createdAt data),
                 cat_updatedAt = column_default (Some now) (ic_updatedAt data)\<rparr>
      in if \<not> int4 (cat_id row) then (Inl (DatabaseError ''numeric_value_out_of_range''), d')
         else if cat_id row \<in> set (map cat_id (categories d))
                 \<or> cat_name row \<in> set (map cat_name (categories d))
         then (Inl (DatabaseError ''unique_violation''), d')
         else (Inr row, d'\<lparr>categories := categories d @ [row]\<rparr>))"

text \<open>
  \<^verbatim>\<open>
  async approveService(id: number): Promise<Service> {
    const [approvedService] = await db
      .update(services)
      .set({ isApproved: true, updatedAt: new Date() })
      .where(eq(services.id, id))
      .returning();
    return approvedService;
  }
  \<close>
  The argument is the result of \<^verbatim>\<open>parseInt\<close>; \<open>None\<close> is \<^verbatim>\<open>NaN\<close>, which the
  database does not take for an integer column, as it takes no number outside the
  column's range.  The result is the first row the statement returns, if any.
\<close>

definition approveService :: "int \<Rightarrow> int option \<Rightarrow> db \<Rightarrow> (error + service option) \<times> db" where
  "approveService now sid d =
     (case sid of
        None \<Rightarrow> (Inl (DatabaseError ''invalid_text_representation''), d)
      | Some n \<Rightarrow>
          if \<not> int4 n then (Inl (DatabaseError ''numeric_value_out_of_range''), d)
          else
            (let services' =
                   map (\<lambda>s. if s_id s = n
                             then s\<lparr>s_isApproved := Some True, s_updatedAt := Some now\<rparr>
                             else s) (services d)
             in (Inr (find (\<lambda>s. s_id s = n) services'), d\<lparr>services := services'\<rparr>)))"

text \<open>
  \<^verbatim>\<open>
  async createSupportTicket(ticket: InsertSupportTicket): Promise<SupportTicket> {
    const ticketNumber = `ST-${Date.now()}`;
    const [newTicket] = await db.insert(supportTickets)
      .values({ ...ticket, ticketNumber }).returning();
    return newTicket;
  }
  \<close>
  \<open>decimal\<close> writes a natural number in base ten, as the template string does.
\<close>

fun decimal :: "nat \<Rightarrow> string" where
  "decimal n =
     (if n < 10 then [char_of (48 + n)]
      else decimal (n div 10) @ [char_of (48 + n mod 10)])"

definition number_toString :: "int \<Rightarrow> string" where
  "number_toString n = (if n < 0 then ''-'' @ decimal (nat (- n)) else decimal (nat n))"

record insert_ticket =
  it_id :: "int option"
  it_ticketNumber :: string
  it_name :: string
  it_email :: string
  it_subject :: string
  it_message :: string
  it_status :: "ticket_status field"
  it_priority :: "ticket_priority field"
  it_categoryId :: "int field"
  it_adminResponse :: "string field"
  it_createdAt :: "int field"
  it_updatedAt :: "int field"

text \<open>
  The constraints of \<^verbatim>\<open>support_tickets\<close>: the primary key, the unique ticket number
  and the reference to \<^verbatim>\<open>support_categories\<close>.
\<close>

definition tickets_ok :: "int list \<Rightarrow> ticket list \<Rightarrow> bool" where
  "tickets_ok category_ids ts \<longleftrightarrow>
     distinct (map t_id ts) \<and> distinct (map t_ticketNumber ts)
     \<and> list_all (\<lambda>r. case t_categoryId r of None \<Rightarrow> True | Some c \<Rightarrow> c \<in> set category_ids) ts
     \<and> list_all (\<lambda>r. int4 (t_id r)) ts"

definition createSupportTicket :: "int \<Rightarrow> insert_ticket \<Rightarrow> db \<Rightarrow> (error + ticket) \<times> db" where
  "createSupportTicket now ticket d =
     (let ticketNumber = ''ST-'' @ number_toString now;
          d' = (case it_id ticket of
                  None \<Rightarrow> d\<lparr>supportTickets_id_seq := supportTickets_id_seq d + 1\<rparr>
                | Some n \<Rightarrow> d);
          row = \<lparr>t_id = (case it_id ticket of
                           None \<Rightarrow> supportTickets_id_seq d + 1 | Some n \<Rightarrow> n),
                 t_ticketNumber = ticketNumber,
                 t_name = it_name ticket,
                 t_email = it_email ticket,
                 t_subject = it_subject ticket,
                 t_message = it_message ticket,
                 t_status = column_default (Some Open) (it_status ticket),
                 t_priority = column_default (Some Medium) (it_priority ticket),
                 t_categoryId = column_default None (it_categoryId ticket),
                 t_adminResponse = column_default None (it_adminResponse ticket),
                 t_createdAt = column_default (Some now) (it_createdAt ticket),
                 t_updatedAt = column_default (Some now) (it_updatedAt ticket)\<rparr>
      in if tickets_ok (supportCategory_ids d) (supportTickets d @ [row])
         then (Inr row, d'\<lparr>supportTickets := supportTickets d @ [row]\<rparr>)
         else (Inl (DatabaseError ''constraint_violation''), d'))"

text \<open>
  \<^verbatim>\<open>
  async updateSupportTicket(id: number, ticket: Partial<InsertSupportTicket>) {
    const [updatedTicket] = await db
      .update(supportTickets)
      .set({ ...ticket, updatedAt: new Date() })
      .where(eq(supportTickets.id, id))
      .returning();
    return updatedTicket;
  }
  \<close>
  Every property of the patch is optional; \<open>None\<close> is a property left out.  As in
  \<open>approveService\<close>, the database takes no id outside the range of the column.
\<close>

record ticket_patch =
  tp_id :: "int option"
  tp_ticketNumber :: "string option"
  tp_name :: "string option"
  tp_email :: "string option"
  tp_subject :: "string option"
  tp_message :: "string option"
  tp_status :: "ticket_status field"
  tp_priority :: "ticket_priority field"
  tp_categoryId :: "int field"
  tp_adminResponse :: "string field"
  tp_createdAt :: "int field"

definition or_else :: "'a option \<Rightarrow> 'a \<Rightarrow> 'a" where
  "or_else given old = (case given of None \<Rightarrow> old | Some x \<Rightarrow> x)"

definition patch_ticket :: "int \<Rightarrow> ticket_patch \<Rightarrow> ticket \<Rightarrow> ticket" where
  "patch_ticket now p r =
     \<lparr>t_id = or_else (tp_id p) (t_id r),
      t_ticketNumber = or_else (tp_ticketNumber p) (t_ticketNumber r),
      t_name = or_else (tp_name p) (t_name r),
      t_email = or_else (tp_email p) (t_email r),
      t_subject = or_else (tp_subject p) (t_subject r),
      t_message = or_else (tp_message p) (t_message r),
      t_status = column_set (tp_status p) (t_status r),
      t_priority = column_set (tp_priority p) (t_priority r),
      t_categoryId = column_set (tp_categoryId p) (t_categoryId r),
      t_adminResponse = column_set (tp_adminResponse p) (t_adminResponse r),
      t_createdAt = column_set (tp_createdAt p) (t_createdAt r),
      t_updatedAt = Some now\<rparr>"

definition updateSupportTicket ::
  "int \<Rightarrow> int \<Rightarrow> ticket_patch \<Rightarrow> db \<Rightarrow> (error + ticket option) \<times> db" where
  "updateSupportTicket now tid p d =
     (if \<not> int4 tid then (Inl (DatabaseError ''numeric_value_out_of_range''), d)
      else
        (let tickets' = map (\<lambda>r. if t_id r = tid then patch_ticket now p r else r)
                           (supportTickets d)
         in if tickets_ok (supportCategory_ids d) tickets'
            then (Inr (map_option (patch_ticket now p)
                         (find (\<lambda>r. t_id r = tid) (supportTickets d))),
                  d\<lparr>supportTickets := tickets'\<rparr>)
            else (Inl (DatabaseError ''constraint_violation''), d)))"

text \<open>
  The lifecycle of a ticket in the words of the specification: open, then in progress,
  then resolved or closed.  \<open>lifecycle_forward a b\<close> says that \<open>b\<close> is not before \<open>a\<close>.
\<close>

fun lifecycle_rank :: "ticket_status \<Rightarrow> nat" where
  "lifecycle_rank Open = 0"
| "lifecycle_rank In_progress = 1"
| "lifecycle_rank Resolved = 2"
| "lifecycle_rank Closed = 2"

definition lifecycle_forward :: "ticket_status \<Rightarrow> ticket_status \<Rightarrow> bool" where
  "lifecycle_forward a b \<longleftrightarrow> lifecycle_rank a \<le> lifecycle_rank b"

text \<open>
  The class \<^verbatim>\<open>DatabaseStorage\<close> defines the members that the interface
  \<^verbatim>\<open>IStorage\<close> lists, and no other.  The payment and two-factor helpers call members
  of \<^verbatim>\<open>storage\<close> that are not among them.  Reading such a member gives
  \<^verbatim>\<open>undefined\<close>, and calling it throws a \<^verbatim>\<open>TypeError\<close> before anything is read or
  stored.
\<close>

definition DatabaseStorage_members :: "string list" where
  "DatabaseStorage_members =
     [''getUser'', ''getUserByUsername'', ''getUserByEmail'', ''createUser'', ''updateUser'',
      ''getCategories'', ''getCategoryById'', ''createCategory'', ''updateCategory'',
      ''deleteCategory'', ''getServices'', ''getServiceById'', ''getServicesByUserId'',
      ''createService'', ''updateService'', ''deleteService'', ''approveService'',
      ''featureService'', ''getContent'', ''getContentByKey'', ''createContent'',
      ''updateContent'', ''deleteContent'', ''getSuggestions'', ''createSuggestion'',
      ''updateSuggestionStatus'', ''getDonations'', ''createDonation'',
      ''updateDonationStatus'', ''getMessagesByServiceId'', ''createMessage'',
      ''getReviewsByServiceId'', ''createReview'', ''approveReview'', ''deleteReview'',
      ''getAdvertisements'', ''getActiveAdvertisements'', ''getAdvertisementsByPosition'',
      ''createAdvertisement'', ''updateAdvertisement'', ''updateAdvertisementStatus'',
      ''deleteAdvertisement'', ''getSupportCategories'', ''createSupportCategory'',
      ''getSupportArticles'', ''getSupportArticleBySlug'', ''createSupportArticle'',
      ''updateSupportArticle'', ''getFaqItems'', ''createFaqItem'', ''getSupportTickets'',
      ''createSupportTicket'', ''updateSupportTicket'']"

definition not_a_function :: "string \<Rightarrow> error" where
  "not_a_function member = TypeError (''storage.'' @ member @ '' is not a function'')"

subsection \<open>Route handlers (\<^verbatim>\<open>server/routes.ts\<close>)\<close>

text \<open>
  What a handler sends: the status, the JSON body, and the user id it writes to the
  session, if it writes one.
\<close>

record public_user =
  pu_id :: int
  pu_username :: string
  pu_email :: string
  pu_fullName :: "string option"
  pu_phone :: "string option"
  pu_role :: string
  pu_isActive :: bool
  pu_createdAt :: int
  pu_updatedAt :: int

definition userWithoutPassword :: "user \<Rightarrow> public_user" where
  "userWithoutPassword u =
     \<lparr>pu_id = u_id u, pu_username = u_username u, pu_email = u_email u,
      pu_fullName = u_fullName u, pu_phone = u_phone u, pu_role = u_role u,
      pu_isActive = u_isActive u, pu_createdAt = u_createdAt u,
      pu_updatedAt = u_updatedAt u\<rparr>"

datatype body =
    Message string
  | MessageErrors string "string list"
  | Registered public_user token string
  | CategoryJson category
  | ServiceJson "service option"

record reply =
  r_status :: int
  r_body :: body
  r_session_userId :: "int option"

definition send :: "int \<Rightarrow> body \<Rightarrow> reply" where
  "send code b = \<lparr>r_status = code, r_body = b, r_session_userId = None\<rparr>"

text \<open>
  \<^verbatim>\<open>registerSchema\<close> picks \<^verbatim>\<open>username\<close>, \<^verbatim>\<open>email\<close>, \<^verbatim>\<open>password\<close>,
  \<^verbatim>\<open>fullName\<close> and \<^verbatim>\<open>phone\<close> of the insert schema of \<^verbatim>\<open>users\<close>: the first three
  columns are \<^verbatim>\<open>notNull()\<close> text, so each must be a string; the other two may be left
  out or \<^verbatim>\<open>null\<close>.  Other properties of the body are dropped.
\<close>

record register_body =
  rb_username :: json
  rb_email :: json
  rb_password :: json
  rb_fullName :: json
  rb_phone :: json

record validated_registration =
  vr_username :: string
  vr_email :: string
  vr_password :: string
  vr_fullName :: "string field"
  vr_phone :: "string field"

definition registerSchema_parse :: "register_body \<Rightarrow> error + validated_registration" where
  "registerSchema_parse b =
     (let issues = issue ''username'' (zod_string (rb_username b))
                 @ issue ''email'' (zod_string (rb_email b))
                 @ issue ''password'' (zod_string (rb_password b))
                 @ issue ''fullName'' (zod_nullish_string (rb_fullName b))
                 @ issue ''phone'' (zod_nullish_string (rb_phone b))
      in case zod_string (rb_username b) of None \<Rightarrow> Inl (ZodError issues) | Some username \<Rightarrow>
         case zod_string (rb_email b) of None \<Rightarrow> Inl (ZodError issues) | Some email \<Rightarrow>
         case zod_string (rb_password b) of None \<Rightarrow> Inl (ZodError issues) | Some password \<Rightarrow>
         case zod_nullish_string (rb_fullName b) of None \<Rightarrow> Inl (ZodError issues) | Some fullName \<Rightarrow>
         case zod_nullish_string (rb_phone b) of None \<Rightarrow> Inl (ZodError issues) | Some phone \<Rightarrow>
           Inr \<lparr>vr_username = username, vr_email = email, vr_password = password,
                vr_fullName = fullName, vr_phone = phone\<rparr>)"

text \<open>
  The handler of \<^verbatim>\<open>POST /api/register\<close>.  The route runs \<^verbatim>\<open>validateRegistration\<close>
  and \<^verbatim>\<open>sanitizeInput\<close> before it; they and the route as a whole follow below.
  \<^verbatim>\<open>
  async (req, res) => {
    try {
      const validated = registerSchema.parse(req.body);
      const existingUser = await storage.getUserByUsername(validated.username);
      if (existingUser) {
        return res.status(400).json({ message: 'Username already exists' });
      }
      const existingEmail = await storage.getUserByEmail(validated.email);
      if (existingEmail) {
        return res.status(400).json({ message: 'Email already exists' });
      }
      const hashedPassword = await hashPassword(validated.password);
      const user = await storage.createUser({ ...validated, password: hashedPassword });
      const token = generateToken(user.id);
      if (req.session) { req.session.userId = user.id; }
      const { password, ...userWithoutPassword } = user;
      res.status(201).json({ user: userWithoutPassword, token,
                             message: 'User registered successfully' });
    } catch (error) {
      console.error('Registration error:', error);
      if (error instanceof z.ZodError) {
        return res.status(400).json({ message: 'Invalid input data', errors: error.errors });
      }
      res.status(500).json({ message: 'Registration failed' });
    }
  }
  \<close>
  \<^verbatim>\<open>hashPassword\<close> is the password hash of a library, and a parameter.  \<open>now\<close> is the
  clock of the database at the insert, \<open>now'\<close> the clock at \<^verbatim>\<open>generateToken\<close>.
\<close>

definition register_handler ::
  "(string \<Rightarrow> string) \<Rightarrow> string \<Rightarrow> int \<Rightarrow> int \<Rightarrow> register_body \<Rightarrow> db \<Rightarrow> reply \<times> db" where
  "register_handler hashPassword JWT_SECRET now now' b d =
     (case registerSchema_parse b of
        Inl (ZodError issues) \<Rightarrow> (send 400 (MessageErrors ''Invalid input data'' issues), d)
      | Inl other \<Rightarrow> (send 500 (Message ''Registration failed''), d)
      | Inr validated \<Rightarrow>
          (case getUserByUsername (vr_username validated) d of
             Some existingUser \<Rightarrow> (send 400 (Message ''Username already exists''), d)
           | None \<Rightarrow>
               (case getUserByEmail (vr_email validated) d of
                  Some existingEmail \<Rightarrow> (send 400 (Message ''Email already exists''), d)
                | None \<Rightarrow>
                    (let hashedPassword = hashPassword (vr_password validated)
                     in case createUser now
                               \<lparr>iu_username = vr_username validated,
                                iu_email = vr_email validated,
                                iu_password = hashedPassword,
                                iu_fullName = vr_fullName validated,
                                iu_phone = vr_phone validated,
                                iu_role = None, iu_isActive = None\<rparr> d of
                          (Inl e, d') \<Rightarrow> (send 500 (Message ''Registration failed''), d')
                        | (Inr user, d') \<Rightarrow>
                            (\<lparr>r_status = 201,
                              r_body = Registered (userWithoutPassword user)
                                         (generateToken JWT_SECRET (u_id user) None now')
                                         ''User registered successfully'',
                              r_session_userId = Some (u_id user)\<rparr>, d')))))"

text \<open>
  The route of \<^verbatim>\<open>POST /api/register\<close> is
  \<^verbatim>\<open>app.post('/api/register', validateRegistration, sanitizeInput, async (req, res) ...)\<close>:
  the checks of \<^verbatim>\<open>validateRegistration\<close> run first, then \<^verbatim>\<open>sanitizeInput\<close>, then the
  handler above.  The checks are chains of the validation library over the fields of the
  body:
  \<^item> \<^verbatim>\<open>username\<close>: a length from 3 to 50, and only letters a to z and A to Z, digits
    and the underscore, at least one;
  \<^item> \<^verbatim>\<open>email\<close>: \<^verbatim>\<open>isEmail()\<close>, then the sanitizer \<^verbatim>\<open>normalizeEmail()\<close>, which writes
    its result back to the body;
  \<^item> \<^verbatim>\<open>password\<close>: a length from 8 to 128, and a pattern that asks the first line for a
    lower-case letter, an upper-case letter, a digit and one of \<^verbatim>\<open>@$!%*?&\<close>, and the
    first character to be a letter, a digit or one of these;
  \<^item> \<^verbatim>\<open>fullName\<close>: a length from 2 to 100, and only letters, the accented vowels of
    Spanish in both cases, n with tilde in both cases and white space, at least one;
  \<^item> \<^verbatim>\<open>phone\<close>: an optional plus sign, then 7 to 15 characters that are digits, white
    space, hyphens or parentheses.

  No chain is optional.  A check reads the string form of the value it is given; of an
  array it reads every element.  Every check that fails records an error for its field;
  an error is modelled by the name of the field.  \<^verbatim>\<open>isEmail\<close> and \<^verbatim>\<open>normalizeEmail\<close>
  belong to the library and are parameters.
\<close>

definition code_unit :: "char \<Rightarrow> nat" where
  "code_unit c = of_char c"

definition is_lower :: "char \<Rightarrow> bool" where
  "is_lower c \<longleftrightarrow> 97 \<le> code_unit c \<and> code_unit c \<le> 122"

definition is_upper :: "char \<Rightarrow> bool" where
  "is_upper c \<longleftrightarrow> 65 \<le> code_unit c \<and> code_unit c \<le> 90"

definition is_digit :: "char \<Rightarrow> bool" where
  "is_digit c \<longleftrightarrow> 48 \<le> code_unit c \<and> code_unit c \<le> 57"

text \<open>
  White space, for the patterns and for \<^verbatim>\<open>trim\<close>: tab, line feed, vertical tab, form
  feed, carriage return, space and the no-break space.  A line ends at a line feed or a
  carriage return.
\<close>

definition is_space :: "char \<Rightarrow> bool" where
  "is_space c \<longleftrightarrow> code_unit c \<in> set [9, 10, 11, 12, 13, 32, 160]"

definition is_line_terminator :: "char \<Rightarrow> bool" where
  "is_line_terminator c \<longleftrightarrow> code_unit c \<in> set [10, 13]"

definition is_word :: "char \<Rightarrow> bool" where
  "is_word c \<longleftrightarrow> is_lower c \<or> is_upper c \<or> is_digit c \<or> code_unit c = 95"

text \<open>The characters \<^verbatim>\<open>@$!%*?&\<close>.\<close>

definition is_special :: "char \<Rightarrow> bool" where
  "is_special c \<longleftrightarrow> code_unit c \<in> set [64, 36, 33, 37, 42, 63, 38]"

text \<open>The accented vowels and n with tilde, lower case and upper case.\<close>

definition is_accented :: "char \<Rightarrow> bool" where
  "is_accented c \<longleftrightarrow>
     code_unit c \<in> set [225, 233, 237, 243, 250, 193, 201, 205, 211, 218, 241, 209]"

definition isLength :: "nat \<Rightarrow> nat \<Rightarrow> string \<Rightarrow> bool" where
  "isLength lo hi s \<longleftrightarrow> lo \<le> length s \<and> length s \<le> hi"

definition username_pattern :: "string \<Rightarrow> bool" where
  "username_pattern s \<longleftrightarrow> s \<noteq> [] \<and> list_all is_word s"

definition password_pattern :: "string \<Rightarrow> bool" where
  "password_pattern s \<longleftrightarrow>
     (let line = takeWhile (\<lambda>c. \<not> is_line_terminator c) s
      in list_ex is_lower line \<and> list_ex is_upper line \<and> list_ex is_digit line
         \<and> list_ex is_special line
         \<and> (case s of
              [] \<Rightarrow> False
            | c # cs \<Rightarrow> is_lower c \<or> is_upper c \<or> is_digit c \<or> is_special c))"

definition fullName_pattern :: "string \<Rightarrow> bool" where
  "fullName_pattern s \<longleftrightarrow>
     s \<noteq> [] \<and> list_all (\<lambda>c. is_lower c \<or> is_upper c \<or> is_accented c \<or> is_space c) s"

definition phone_pattern :: "string \<Rightarrow> bool" where
  "phone_pattern s \<longleftrightarrow>
     (let rest = (case s of
                    [] \<Rightarrow> []
                  | c # cs \<Rightarrow> if code_unit c = 43 then cs else s)
      in 7 \<le> length rest \<and> length rest \<le> 15
         \<and> list_all (\<lambda>c. is_digit c \<or> is_space c \<or> code_unit c \<in> set [45, 40, 41]) rest)"

text \<open>
  The string that a check reads of a value: the empty string of \<^verbatim>\<open>undefined\<close> and
  \<^verbatim>\<open>null\<close>, and what \<^verbatim>\<open>String(value)\<close> gives otherwise (an integer is written in
  full, in base ten).
\<close>

fun validator_string :: "json \<Rightarrow> string" where
  "validator_string Undefined = []"
| "validator_string JNull = []"
| "validator_string (JBool b) = (if b then ''true'' else ''false'')"
| "validator_string (JNum n) = number_toString n"
| "validator_string (JStr s) = s"
| "validator_string (JArray vs) = (case vs of [] \<Rightarrow> [] | v # others \<Rightarrow> v)"
| "validator_string (JOther s) = s"

fun validator_values :: "json \<Rightarrow> string list" where
  "validator_values (JArray vs) = vs"
| "validator_values value = [validator_string value]"

definition check :: "string \<Rightarrow> (string \<Rightarrow> bool) \<Rightarrow> json \<Rightarrow> string list" where
  "check path validator value =
     map (\<lambda>s. path) (filter (\<lambda>s. \<not> validator s) (validator_values value))"

definition validateRegistration :: "(string \<Rightarrow> bool) \<Rightarrow> register_body \<Rightarrow> string list" where
  "validateRegistration isEmail b =
     check ''username'' (isLength 3 50) (rb_username b)
     @ check ''username'' username_pattern (rb_username b)
     @ check ''email'' isEmail (rb_email b)
     @ check ''password'' (isLength 8 128) (rb_password b)
     @ check ''password'' password_pattern (rb_password b)
     @ check ''fullName'' (isLength 2 100) (rb_fullName b)
     @ check ''fullName'' fullName_pattern (rb_fullName b)
     @ check ''phone'' phone_pattern (rb_phone b)"

text \<open>
  A sanitizer of the library replaces the value by its result on the value's string form,
  and each element of an array by its result on the element.  \<^verbatim>\<open>normalizeEmail\<close> gives
  a string or \<^verbatim>\<open>false\<close>.
\<close>

definition sanitizer :: "(string \<Rightarrow> json) \<Rightarrow> json \<Rightarrow> json" where
  "sanitizer f value =
     (case value of
        JArray vs \<Rightarrow> JArray (map (\<lambda>s. validator_string (f s)) vs)
      | other \<Rightarrow> f (validator_string value))"

definition validated_body :: "(string \<Rightarrow> json) \<Rightarrow> register_body \<Rightarrow> register_body" where
  "validated_body normalizeEmail b = b\<lparr>rb_email := sanitizer normalizeEmail (rb_email b)\<rparr>"

text \<open>
  \<^verbatim>\<open>
  const sanitizeInput = (req: any, res: any, next: any) => {
    const errors = validationResult(req);
    if (!errors.isEmpty()) {
      return res.status(400).json({ message: 'Invalid input data', errors: errors.array() });
    }
    for (const key in req.body) {
      if (typeof req.body[key] === 'string') {
        req.body[key] = encode(req.body[key].trim());
      }
    }
    next();
  };
  \<close>
  \<^verbatim>\<open>trim\<close> drops the white space at both ends.  \<^verbatim>\<open>encode\<close> of the entity library
  replaces the less-than sign, the greater-than sign, the ampersand and the two quotes
  by their named references and keeps every other character of the model.
\<close>

definition trim :: "string \<Rightarrow> string" where
  "trim s = rev (dropWhile is_space (rev (dropWhile is_space s)))"

definition encode_char :: "char \<Rightarrow> string" where
  "encode_char c =
     (if code_unit c = 60 then ''&lt;''
      else if code_unit c = 62 then ''&gt;''
      else if code_unit c = 38 then ''&amp;''
      else if code_unit c = 34 then ''&quot;''
      else if code_unit c = 39 then ''&apos;''
      else [c])"

definition encode :: "string \<Rightarrow> string" where
  "encode s = concat (map encode_char s)"

definition sanitize_field :: "json \<Rightarrow> json" where
  "sanitize_field value = (case value of JStr s \<Rightarrow> JStr (encode (trim s)) | other \<Rightarrow> value)"

definition sanitized_body :: "register_body \<Rightarrow> register_body" where
  "sanitized_body b =
     \<lparr>rb_username = sanitize_field (rb_username b),
      rb_email = sanitize_field (rb_email b),
      rb_password = sanitize_field (rb_password b),
      rb_fullName = sanitize_field (rb_fullName b),
      rb_phone = sanitize_field (rb_phone b)\<rparr>"

text \<open>
  The route: the answer of \<^verbatim>\<open>sanitizeInput\<close> when a check has failed, and else the
  handler on the body as the sanitizers leave it.  The model starts at the route; the
  rate limiters that the application puts before every route are not part of it.
\<close>

definition register_route ::
  "(string \<Rightarrow> bool) \<Rightarrow> (string \<Rightarrow> json) \<Rightarrow> (string \<Rightarrow> string) \<Rightarrow> string \<Rightarrow> int \<Rightarrow> int
     \<Rightarrow> register_body \<Rightarrow> db \<Rightarrow> reply \<times> db" where
  "register_route isEmail normalizeEmail hashPassword JWT_SECRET now now' b d =
     (let errors = validateRegistration isEmail b;
          reqBody = validated_body normalizeEmail b
      in if errors \<noteq> []
         then (send 400 (MessageErrors ''Invalid input data'' errors), d)
         else register_handler hashPassword JWT_SECRET now now' (sanitized_body reqBody) d)"

text \<open>
  The handler of \<^verbatim>\<open>POST /api/categories\<close>, behind \<^verbatim>\<open>authenticate\<close> and
  \<^verbatim>\<open>requireAdmin\<close>.  Its \<^verbatim>\<open>catch\<close> block has one answer for every error.
  \<^verbatim>\<open>
  async (req: any, res) => {
    try {
      const categoryData = insertCategorySchema.parse(req.body);
      const category = await storage.createCategory(categoryData);
      res.json(category);
    } catch (error) {
      console.error("Error creating category:", error);
      res.status(500).json({ message: "Failed to create category" });
    }
  }
  \<close>
\<close>

record category_body =
  cb_id :: json
  cb_name :: json
  cb_description :: json
  cb_icon :: json
  cb_isActive :: json
  cb_createdAt :: json
  cb_updatedAt :: json

definition insertCategorySchema_parse :: "category_body \<Rightarrow> error + insert_category" where
  "insertCategorySchema_parse b =
     (let issues = issue ''id'' (zod_optional_number (cb_id b))
                 @ issue ''name'' (zod_string (cb_name b))
                 @ issue ''description'' (zod_nullish_string (cb_description b))
                 @ issue ''icon'' (zod_nullish_string (cb_icon b))
                 @ issue ''isActive'' (zod_nullish_boolean (cb_isActive b))
                 @ issue ''createdAt'' (zod_nullish_date (cb_createdAt b))
                 @ issue ''updatedAt'' (zod_nullish_date (cb_updatedAt b))
      in case zod_optional_number (cb_id b) of None \<Rightarrow> Inl (ZodError issues) | Some i \<Rightarrow>
         case zod_string (cb_name b) of None \<Rightarrow> Inl (ZodError issues) | Some name \<Rightarrow>
         case zod_nullish_string (cb_description b) of None \<Rightarrow> Inl (ZodError issues) | Some description \<Rightarrow>
         case zod_nullish_string (cb_icon b) of None \<Rightarrow> Inl (ZodError issues) | Some icon \<Rightarrow>
         case zod_nullish_boolean (cb_isActive b) of None \<Rightarrow> Inl (ZodError issues) | Some isActive \<Rightarrow>
         case zod_nullish_date (cb_createdAt b) of None \<Rightarrow> Inl (ZodError issues) | Some createdAt \<Rightarrow>
         case zod_nullish_date (cb_updatedAt b) of None \<Rightarrow> Inl (ZodError issues) | Some updatedAt \<Rightarrow>
           Inr \<lparr>ic_id = i, ic_name = name, ic_description = description, ic_icon = icon,
                ic_isActive = isActive, ic_createdAt = createdAt, ic_updatedAt = updatedAt\<rparr>)"

definition post_categories_handler :: "int \<Rightarrow> category_body \<Rightarrow> db \<Rightarrow> reply \<times> db" where
  "post_categories_handler now b d =
     (case insertCategorySchema_parse b of
        Inl error \<Rightarrow> (send 500 (Message ''Failed to create category''), d)
      | Inr categoryData \<Rightarrow>
          (case createCategory now categoryData d of
             (Inl error, d') \<Rightarrow> (send 500 (Message ''Failed to create category''), d')
           | (Inr category, d') \<Rightarrow> (send 200 (CategoryJson category), d')))"

text \<open>
  The handler of \<^verbatim>\<open>PATCH /api/services/:id/approve\<close>, behind \<^verbatim>\<open>authenticate\<close>, which
  has put the caller in \<^verbatim>\<open>req.user\<close>.  \<open>uid\<close> is \<^verbatim>\<open>req.user.id\<close> and \<open>sid\<close> is
  \<^verbatim>\<open>parseInt(req.params.id)\<close>.
  \<^verbatim>\<open>
  async (req: any, res) => {
    try {
      const user = await storage.getUser(req.user!.id.toString());
      if (user?.role !== 'admin') {
        return res.status(403).json({ message: "Admin access required" });
      }
      const id = parseInt(req.params.id);
      const service = await storage.approveService(id);
      res.json(service);
    } catch (error) {
      console.error("Error approving service:", error);
      res.status(500).json({ message: "Failed to approve service" });
    }
  }
  \<close>
\<close>

definition approve_handler :: "int \<Rightarrow> int \<Rightarrow> int option \<Rightarrow> db \<Rightarrow> reply \<times> db" where
  "approve_handler now uid sid d =
     (let user = getUser uid d
      in if map_option u_role user \<noteq> Some ''admin''
         then (send 403 (Message ''Admin access required''), d)
         else (case approveService now sid d of
                 (Inl error, d') \<Rightarrow> (send 500 (Message ''Failed to approve service''), d')
               | (Inr service, d') \<Rightarrow> (send 200 (ServiceJson service), d')))"

subsection \<open>Payments (\<^verbatim>\<open>server/payments.ts\<close>)\<close>

text \<open>
  A JavaScript number: a real number or \<^verbatim>\<open>NaN\<close>, which is below nothing.
\<close>

datatype number = Num real | NaN

fun number_less :: "number \<Rightarrow> real \<Rightarrow> bool" where
  "number_less (Num x) y = (x < y)"
| "number_less NaN y = False"

record PSEPayment =
  pse_bank :: string
  pse_documentType :: string
  pse_documentNumber :: string
  pse_amount :: number
  pse_description :: string

record payment_metadata =
  pm_bank :: string
  pm_documentType :: string
  pm_documentNumber :: string
  pm_description :: string

record payment_record =
  pr_id :: string
  pr_amount :: number
  pr_currency :: string
  pr_status :: string
  pr_paymentMethod :: string
  pr_metadata :: payment_metadata

record PaymentIntent =
  pi_id :: string
  pi_amount :: number
  pi_currency :: string
  pi_status :: string
  pi_paymentMethod :: string
  pi_metadata :: PSEPayment

text \<open>
  \<^verbatim>\<open>storage.createPaymentRecord\<close> is not a member of \<^verbatim>\<open>DatabaseStorage\<close> and no
  table of the schema holds payments, so there is nothing the call could run: it throws,
  and the database is as it was.
\<close>

definition storage_createPaymentRecord :: "payment_record \<Rightarrow> db \<Rightarrow> (error + unit) \<times> db" where
  "storage_createPaymentRecord record d = (Inl (not_a_function ''createPaymentRecord''), d)"

text \<open>
  \<^verbatim>\<open>
  export const createPSEPayment = async (payment: PSEPayment): Promise<PaymentIntent> => {
    const paymentId = `pse_${Date.now()}_${Math.random().toString(36).substring(7)}`;
    if (payment.amount < 5000) { // Minimo $5,000 COP
      throw new Error('Monto minimo para PSE es $5,000 COP');
    }
    if (!['CC', 'CE', 'NIT'].includes(payment.documentType)) {
      throw new Error('Tipo de documento invalido');
    }
    await storage.createPaymentRecord({
      id: paymentId, amount: payment.amount, currency: 'COP', status: 'pending',
      paymentMethod: 'pse',
      metadata: { bank: payment.bank, documentType: payment.documentType,
                  documentNumber: payment.documentNumber, description: payment.description },
    });
    logSecurityEvent('pse_payment_created', {...}, 'info');
    return { id: paymentId, amount: payment.amount, currency: 'COP', status: 'pending',
             paymentMethod: 'pse', metadata: payment };
  };
  \<close>
  The payment id is made from the clock and \<^verbatim>\<open>Math.random\<close> and is an argument.  The
  two messages hold an accented letter, written here by its code unit.  The log line is
  not modelled.
\<close>

definition monto_minimo :: string where
  "monto_minimo = ''Monto m'' @ [char_of (237::nat)] @ ''nimo para PSE es $5,000 COP''"

definition tipo_invalido :: string where
  "tipo_invalido = ''Tipo de documento inv'' @ [char_of (225::nat)] @ ''lido''"

definition createPSEPayment :: "string \<Rightarrow> PSEPayment \<Rightarrow> db \<Rightarrow> (error + PaymentIntent) \<times> db" where
  "createPSEPayment paymentId payment d =
     (if number_less (pse_amount payment) 5000 then (Inl (Error monto_minimo), d)
      else if pse_documentType payment \<notin> set [''CC'', ''CE'', ''NIT'']
      then (Inl (Error tipo_invalido), d)
      else
        (case storage_createPaymentRecord
                \<lparr>pr_id = paymentId, pr_amount = pse_amount payment, pr_currency = ''COP'',
                 pr_status = ''pending'', pr_paymentMethod = ''pse'',
                 pr_metadata = \<lparr>pm_bank = pse_bank payment,
                                 pm_documentType = pse_documentType payment,
                                 pm_documentNumber = pse_documentNumber payment,
                                 pm_description = pse_description payment\<rparr>\<rparr> d of
           (Inl error, d') \<Rightarrow> (Inl error, d')
         | (Inr done, d') \<Rightarrow>
             (Inr \<lparr>pi_id = paymentId, pi_amount = pse_amount payment, pi_currency = ''COP'',
                   pi_status = ''pending'', pi_paymentMethod = ''pse'',
                   pi_metadata = payment\<rparr>, d')))"

subsection \<open>Two-factor login (\<^verbatim>\<open>server/twoFactorAuth.ts\<close>)\<close>

record two_factor =
  tf_secret :: string
  tf_backupCodes :: "string list"
  tf_isActive :: bool

text \<open>
  \<^verbatim>\<open>storage.getUserTwoFactor\<close> and \<^verbatim>\<open>storage.removeUsedBackupCode\<close> are not members
  of \<^verbatim>\<open>DatabaseStorage\<close> either, and no table of the schema holds two-factor records.
\<close>

definition storage_getUserTwoFactor :: "string \<Rightarrow> db \<Rightarrow> (error + two_factor option) \<times> db" where
  "storage_getUserTwoFactor userId d = (Inl (not_a_function ''getUserTwoFactor''), d)"

definition storage_removeUsedBackupCode :: "string \<Rightarrow> string \<Rightarrow> db \<Rightarrow> (error + unit) \<times> db" where
  "storage_removeUsedBackupCode userId code d =
     (Inl (not_a_function ''removeUsedBackupCode''), d)"

text \<open>\<^verbatim>\<open>toUpperCase\<close> on the letters a to z; other characters are kept.\<close>

definition toUpperCase :: "string \<Rightarrow> string" where
  "toUpperCase s =
     map (\<lambda>c. let n = (of_char c :: nat) in if 97 \<le> n \<and> n \<le> 122 then char_of (n - 32) else c) s"

text \<open>
  \<^verbatim>\<open>
  export const validate2FALogin = async (userId: string, token: string) => {
    const user2FA = await storage.getUserTwoFactor(userId);
    if (!user2FA?.isActive) return true; // No tiene 2FA activado
    if (verify2FAToken(user2FA.secret, token)) {
      return true;
    }
    if (user2FA.backupCodes.includes(token.toUpperCase())) {
      await storage.removeUsedBackupCode(userId, token.toUpperCase());
      return true;
    }
    return false;
  };
  \<close>
  \<^verbatim>\<open>verify2FAToken\<close> asks the one-time-password library, and is a parameter.
\<close>

definition validate2FALogin ::
  "(string \<Rightarrow> string \<Rightarrow> bool) \<Rightarrow> string \<Rightarrow> string \<Rightarrow> db \<Rightarrow> (error + bool) \<times> db" where
  "validate2FALogin verify2FAToken userId token d =
     (case storage_getUserTwoFactor userId d of
        (Inl error, d') \<Rightarrow> (Inl error, d')
      | (Inr user2FA, d') \<Rightarrow>
          (case user2FA of
             None \<Rightarrow> (Inr True, d')
           | Some r \<Rightarrow>
               if \<not> tf_isActive r then (Inr True, d')
               else if verify2FAToken (tf_secret r) token then (Inr True, d')
               else if toUpperCase token \<in> set (tf_backupCodes r)
               then (case storage_removeUsedBackupCode userId (toUpperCase token) d' of
                       (Inl error, d'') \<Rightarrow> (Inl error, d'')
                     | (Inr done, d'') \<Rightarrow> (Inr True, d''))
               else (Inr False, d')))"

subsection \<open>Sample data\<close>

text \<open>A database with one user, for the concrete runs below.\<close>

definition alice :: user where
  "alice = \<lparr>u_id = 1, u_username = ''alice'', u_email = ''alice@example.com'',
            u_password = ''$2b$12$hash'', u_fullName = None, u_phone = None,
            u_role = ''user'', u_isActive = True, u_createdAt = 0, u_updatedAt = 0\<rparr>"

definition db_alice :: db where
  "db_alice = \<lparr>users = [alice], users_id_seq = 1, categories = [], categories_id_seq = 0,
               services = [], supportTickets = [], supportTickets_id_seq = 0,
               supportCategory_ids = []\<rparr>"

text \<open>An administrator, a service that waits for approval, and a database with both.\<close>

definition admin_bob :: user where
  "admin_bob = \<lparr>u_id = 2, u_username = ''bob'', u_email = ''bob@example.com'',
            u_password = ''$2b$12$hash'', u_fullName = None, u_phone = None,
            u_role = ''admin'', u_isActive = True, u_createdAt = 0, u_updatedAt = 0\<rparr>"

definition plumbing :: service where
  "plumbing = \<lparr>s_id = 10, s_userId = ''1'', s_categoryId = 1, s_title = ''Plumbing'',
      s_description = None, s_price = None, s_location = None, s_contactPhone = None,
      s_contactEmail = None, s_availability = None, s_isApproved = Some False,
      s_isFeatured = Some False, s_rating = None, s_reviewCount = Some 0,
      s_createdAt = Some 0, s_updatedAt = Some 0\<rparr>"

definition db_services :: db where
  "db_services = \<lparr>users = [alice, admin_bob], users_id_seq = 2, categories = [],
      categories_id_seq = 0, services = [plumbing], supportTickets = [],
      supportTickets_id_seq = 0, supportCategory_ids = []\<rparr>"

text \<open>The empty database, a request for help that names no status, and a patch of the status alone.\<close>

definition db_empty :: db where
  "db_empty = \<lparr>users = [], users_id_seq = 0, categories = [], categories_id_seq = 0,
               services = [], supportTickets = [], supportTickets_id_seq = 0,
               supportCategory_ids = []\<rparr>"

definition help_request :: insert_ticket where
  "help_request = \<lparr>it_id = None, it_ticketNumber = ''ST-0'', it_name = ''Ana'',
      it_email = ''ana@example.com'', it_subject = ''Login'', it_message = ''I cannot log in'',
      it_status = Absent, it_priority = Absent, it_categoryId = Absent,
      it_adminResponse = Absent, it_createdAt = Absent, it_updatedAt = Absent\<rparr>"

definition status_patch :: "ticket_status \<Rightarrow> ticket_patch" where
  "status_patch s = \<lparr>tp_id = None, tp_ticketNumber = None, tp_name = None, tp_email = None,
      tp_subject = None, tp_message = None, tp_status = Given s, tp_priority = Absent,
      tp_categoryId = Absent, tp_adminResponse = Absent, tp_createdAt = Absent\<rparr>"

text \<open>A registration that passes every check of the route, under the username of the stored user.\<close>

definition registration_of_alice :: register_body where
  "registration_of_alice =
     \<lparr>rb_username = JStr ''alice'', rb_email = JStr ''a2@example.com'',
      rb_password = JStr ''Passw0rd!'', rb_fullName = JStr ''Alice Doe'',
      rb_phone = JStr ''3001234567''\<rparr>"

section \<open>Properties\<close>

subsection \<open>Cache\<close>

lemma str_includes_iff: "str_includes k p \<longleftrightarrow> (\<exists>pre suf. k = pre @ p @ suf)"
proof (induction k)
  case Nil
  then show ?case by auto
next
  case (Cons c cs)
  show ?case
  proof
    assume "str_includes (c # cs) p"
    then consider "prefix p (c # cs)" | "str_includes cs p" by auto
    then show "\<exists>pre suf. c # cs = pre @ p @ suf"
    proof cases
      case 1
      then obtain suf where "c # cs = p @ suf" by (auto simp: prefix_def)
      then have "c # cs = [] @ p @ suf" by simp
      then show ?thesis by blast
    next
      case 2
      with Cons.IH obtain pre suf where "cs = pre @ p @ suf" by blast
      then have "c # cs = (c # pre) @ p @ suf" by simp
      then show ?thesis by blast
    qed
  next
    assume "\<exists>pre suf. c # cs = pre @ p @ suf"
    then obtain pre suf where e: "c # cs = pre @ p @ suf" by blast
    show "str_includes (c # cs) p"
    proof (cases pre)
      case Nil
      with e have "prefix p (c # cs)" by (simp add: prefix_def)
      then show ?thesis by simp
    next
      case (Cons a pre')
      with e have "cs = pre' @ p @ suf" by simp
      with Cons.IH have "str_includes cs p" by blast
      then show ?thesis by simp
    qed
  qed
qed

lemma map_of_NodeCache_del:
  "map_of (NodeCache_del ks data) k = (if k \<in> set ks then None else map_of data k)"
  unfolding NodeCache_del_def
  by (induction ks arbitrary: data) (auto simp: AList.delete_conv)

lemma keys_NodeCache_del:
  "NodeCache_keys (NodeCache_del ks data) = filter (\<lambda>k. k \<notin> set ks) (NodeCache_keys data)"
  unfolding NodeCache_del_def NodeCache_keys_def
proof (induction ks arbitrary: data)
  case Nil
  then show ?case by simp
next
  case (Cons a ks)
  have "filter (\<lambda>k. k \<notin> set ks) (removeAll a (map fst data))
      = filter (\<lambda>k. k \<notin> set (a # ks)) (map fst data)"
    by (induction data) auto
  with Cons show ?case by (simp add: AList.delete_keys)
qed

text \<open>
  C5.  For every pattern and every cache state, \<open>invalidatePattern\<close> deletes exactly the
  keys that contain the pattern as a substring: the keys left are the old keys without
  the matching ones, in their order, and a lookup of any key that does not contain the
  pattern finds the entry it found before, with the same value and expiry time.  A key
  contains the pattern when the key is some prefix, then the pattern, then some suffix.
\<close>

theorem invalidatePattern_exact:
  "NodeCache_keys (invalidatePattern p data)
     = filter (\<lambda>k. \<not> str_includes k p) (NodeCache_keys data)
   \<and> map_of (invalidatePattern p data) k
     = (if str_includes k p then None else map_of data k)
   \<and> (str_includes k p \<longleftrightarrow> (\<exists>pre suf. k = pre @ p @ suf))"
proof -
  let ?ms = "filter (\<lambda>key. str_includes key p) (NodeCache_keys data)"
  have in_ms: "\<And>x. x \<in> set (NodeCache_keys data) \<Longrightarrow> (x \<notin> set ?ms) = (\<not> str_includes x p)"
    by simp
  have keys: "NodeCache_keys (invalidatePattern p data)
      = filter (\<lambda>k. \<not> str_includes k p) (NodeCache_keys data)"
    unfolding invalidatePattern_def Let_def keys_NodeCache_del
    by (rule filter_cong) (simp_all only: in_ms)
  have look: "map_of (invalidatePattern p data) k
      = (if str_includes k p then None else map_of data k)"
  proof (cases "k \<in> set (NodeCache_keys data)")
    case True
    then show ?thesis
      unfolding invalidatePattern_def Let_def map_of_NodeCache_del by simp
  next
    case False
    then have "map_of data k = None"
      by (simp add: NodeCache_keys_def map_of_eq_None_iff)
    with False show ?thesis
      unfolding invalidatePattern_def Let_def map_of_NodeCache_del by simp
  qed
  from keys look str_includes_iff show ?thesis by blast
qed

subsection \<open>Tokens\<close>

lemma tokenAge_exceeds:
  assumes "12 * 60 * 60 * 1000 < now_v - (now_g::int)"
  shows "real_of_int now_v / 1000 - real_of_int (now_g div 1000) > 12 * 60 * 60"
proof -
  have "(now_g div 1000) * 1000 \<le> now_g" by simp
  then have "real_of_int (now_g div 1000) * 1000 \<le> real_of_int now_g"
    by (metis of_int_le_iff of_int_mult of_int_numeral)
  moreover from assms have "real_of_int now_v - real_of_int now_g > 12 * 60 * 60 * 1000"
    by linarith
  ultimately show ?thesis by (simp add: field_simps)
qed

text \<open>
  C10.  A token made by \<open>generateToken\<close> at time \<open>now_g\<close> is rejected by \<open>verifyToken\<close>
  at every time \<open>now_v\<close> more than twelve hours (in milliseconds) later.  Where the
  twenty-four hours of its \<^verbatim>\<open>exp\<close> claim have not yet passed, the library's own check
  still accepts the token, so the rejection comes from the age test.  A token made by
  \<open>generateRefreshToken\<close> is returned decoded for as long as its seven days have not
  passed, whatever its age.
\<close>

theorem verifyToken_cutoff:
  "(12 * 60 * 60 * 1000 < now_v - now_g \<longrightarrow>
      verifyToken secret (generateToken secret uid ver now_g) now_v = None)
   \<and> (12 * 60 * 60 * 1000 < now_v - now_g \<and> now_v div 1000 < now_g div 1000 + 24 * 60 * 60 \<longrightarrow>
      (\<exists>decoded. jwt_verify (generateToken secret uid ver now_g) secret now_v = Inr decoded))
   \<and> (now_v div 1000 < now_g div 1000 + 7 * 24 * 60 * 60 \<longrightarrow>
      verifyToken secret (generateRefreshToken secret uid ver now_g) now_v
        = Some \<lparr>c_userId = uid, c_version = Some (case ver of None \<Rightarrow> 1 | Some n \<Rightarrow> n),
                c_type = Some ''refresh'', c_iat = now_g div 1000,
                c_exp = Some (now_g div 1000 + 7 * 24 * 60 * 60)\<rparr>)"
proof (intro conjI impI)
  assume a: "12 * 60 * 60 * 1000 < now_v - now_g"
  from tokenAge_exceeds[OF a]
  show "verifyToken secret (generateToken secret uid ver now_g) now_v = None"
    by (simp add: verifyToken_def generateToken_def jwt_sign_def jwt_verify_def Let_def)
next
  assume "12 * 60 * 60 * 1000 < now_v - now_g \<and> now_v div 1000 < now_g div 1000 + 24 * 60 * 60"
  then show "\<exists>decoded. jwt_verify (generateToken secret uid ver now_g) secret now_v = Inr decoded"
    by (simp add: generateToken_def jwt_sign_def jwt_verify_def)
next
  assume "now_v div 1000 < now_g div 1000 + 7 * 24 * 60 * 60"
  then show "verifyToken secret (generateRefreshToken secret uid ver now_g) now_v
        = Some \<lparr>c_userId = uid, c_version = Some (case ver of None \<Rightarrow> 1 | Some n \<Rightarrow> n),
                c_type = Some ''refresh'', c_iat = now_g div 1000,
                c_exp = Some (now_g div 1000 + 7 * 24 * 60 * 60)\<rparr>"
    by (simp add: verifyToken_def generateRefreshToken_def jwt_sign_def jwt_verify_def Let_def)
qed

text \<open>
  The same at a concrete clock: a token issued at 1700000000000 and checked thirteen
  hours later.
\<close>

theorem verifyToken_cutoff_witness:
  "verifyToken ''k'' (generateToken ''k'' 7 None 1700000000000) 1700046800000 = None
   \<and> (\<exists>decoded. jwt_verify (generateToken ''k'' 7 None 1700000000000) ''k'' 1700046800000
         = Inr decoded)
   \<and> verifyToken ''k'' (generateRefreshToken ''k'' 7 None 1700000000000) 1700046800000
        = Some \<lparr>c_userId = 7, c_version = Some 1, c_type = Some ''refresh'', c_iat = 1700000000,
                c_exp = Some 1700604800\<rparr>"
  using verifyToken_cutoff[where now_g = 1700000000000 and now_v = 1700046800000
      and secret = "''k''" and uid = 7 and ver = None]
  by simp

subsection \<open>WebSocket registry\<close>

lemma connections_handleConnection:
  "connections (handleConnection u c ws r) = (connections r)(c \<mapsto> ws)"
  by (simp add: handleConnection_def Let_def)

lemma userConnections_handleConnection:
  "userConnections (handleConnection u c ws r) u'
     = (if u' = u then Some (insert c (conns_of r u)) else userConnections r u')"
  by (simp add: handleConnection_def Let_def conns_of_def split: option.splits)

lemma conns_of_handleConnection:
  "conns_of (handleConnection u c ws r) u'
     = (if u' = u then insert c (conns_of r u) else conns_of r u')"
  by (simp add: conns_of_def userConnections_handleConnection)

lemma connections_handleClose:
  "connections (handleClose u c r) = (connections r)(c := None)"
  by (simp add: handleClose_def Let_def)

lemma userConnections_handleClose:
  "userConnections (handleClose u c r) u'
     = (if u' = u
        then (case userConnections r u of
                None \<Rightarrow> None
              | Some s \<Rightarrow> if s - {c} = {} then None else Some (s - {c}))
        else userConnections r u')"
  by (simp add: handleClose_def Let_def split: option.splits)

lemma conns_of_handleClose:
  "conns_of (handleClose u c r) u'
     = (if u' = u then conns_of r u - {c} else conns_of r u')"
  by (auto simp add: conns_of_def userConnections_handleClose split: option.splits)

lemma live_inv_init: "live_inv empty_registry {}"
  by (simp add: live_inv_def empty_registry_def conns_of_def)

lemma live_inv_connect:
  assumes "live_inv r live" "c \<notin> dom (connections r)"
  shows "live_inv (handleConnection u c ws r) (insert (u, c) live)"
proof -
  from assms have fresh: "\<And>u'. c \<notin> conns_of r u'"
    unfolding live_inv_def by blast
  from assms(1) have l: "\<And>u c. (u, c) \<in> live \<longleftrightarrow> c \<in> conns_of r u"
    and uniq: "\<And>u u' c. c \<in> conns_of r u \<Longrightarrow> c \<in> conns_of r u' \<Longrightarrow> u = u'"
    and d: "\<And>c. c \<in> dom (connections r) \<longleftrightarrow> (\<exists>u. c \<in> conns_of r u)"
    and ne: "\<And>u. userConnections r u \<noteq> Some {}"
    unfolding live_inv_def by blast+
  show ?thesis
    unfolding live_inv_def
  proof (intro conjI allI impI)
    fix u' c'
    show "((u', c') \<in> insert (u, c) live) = (c' \<in> conns_of (handleConnection u c ws r) u')"
      using l fresh by (auto simp: conns_of_handleConnection)
  next
    fix u1 u2 c'
    assume "c' \<in> conns_of (handleConnection u c ws r) u1 \<and> c' \<in> conns_of (handleConnection u c ws r) u2"
    then show "u1 = u2"
      using uniq fresh by (auto simp: conns_of_handleConnection split: if_splits)
  next
    fix c'
    show "(c' \<in> dom (connections (handleConnection u c ws r)))
        = (\<exists>u'. c' \<in> conns_of (handleConnection u c ws r) u')"
    proof (cases "c' = c")
      case True
      have "c \<in> conns_of (handleConnection u c ws r) u"
        by (simp add: conns_of_handleConnection)
      with True show ?thesis by (auto simp: connections_handleConnection)
    next
      case False
      have "(\<exists>u'. c' \<in> conns_of (handleConnection u c ws r) u') = (\<exists>u'. c' \<in> conns_of r u')"
        using False by (auto simp: conns_of_handleConnection)
      with False d[of c'] show ?thesis by (simp add: connections_handleConnection)
    qed
  next
    fix u'
    show "userConnections (handleConnection u c ws r) u' \<noteq> Some {}"
      using ne by (simp add: userConnections_handleConnection)
  qed
qed

lemma live_inv_close:
  assumes "live_inv r live" "(u, c) \<in> live"
  shows "live_inv (handleClose u c r) (live - {(u, c)})"
proof -
  from assms(1) have l: "\<And>u c. (u, c) \<in> live \<longleftrightarrow> c \<in> conns_of r u"
    and uniq: "\<And>u u' c. c \<in> conns_of r u \<Longrightarrow> c \<in> conns_of r u' \<Longrightarrow> u = u'"
    and d: "\<And>c. c \<in> dom (connections r) \<longleftrightarrow> (\<exists>u. c \<in> conns_of r u)"
    and ne: "\<And>u. userConnections r u \<noteq> Some {}"
    unfolding live_inv_def by blast+
  from assms(2) l have own: "c \<in> conns_of r u" by blast
  show ?thesis
    unfolding live_inv_def
  proof (intro conjI allI impI)
    fix u' c'
    show "((u', c') \<in> live - {(u, c)}) = (c' \<in> conns_of (handleClose u c r) u')"
      using l own uniq by (auto simp: conns_of_handleClose)
  next
    fix u1 u2 c'
    assume "c' \<in> conns_of (handleClose u c r) u1 \<and> c' \<in> conns_of (handleClose u c r) u2"
    then show "u1 = u2"
      using uniq by (auto simp: conns_of_handleClose split: if_splits)
  next
    fix c'
    show "(c' \<in> dom (connections (handleClose u c r)))
        = (\<exists>u'. c' \<in> conns_of (handleClose u c r) u')"
    proof (cases "c' = c")
      case True
      have "\<And>u'. c \<notin> conns_of (handleClose u c r) u'"
        using own uniq by (auto simp: conns_of_handleClose)
      with True show ?thesis by (simp add: connections_handleClose)
    next
      case False
      have "(\<exists>u'. c' \<in> conns_of (handleClose u c r) u') = (\<exists>u'. c' \<in> conns_of r u')"
        using False by (auto simp: conns_of_handleClose)
      with False d[of c'] show ?thesis by (simp add: connections_handleClose)
    qed
  next
    fix u'
    show "userConnections (handleClose u c r) u' \<noteq> Some {}"
      using ne by (auto simp: userConnections_handleClose split: option.splits)
  qed
qed

lemma live_inv_registry_inv:
  assumes "live_inv r live"
  shows "registry_inv r"
proof -
  from assms have uniq: "\<And>u u' c. c \<in> conns_of r u \<Longrightarrow> c \<in> conns_of r u' \<Longrightarrow> u = u'"
    and d: "\<And>c. c \<in> dom (connections r) \<longleftrightarrow> (\<exists>u. c \<in> conns_of r u)"
    and ne: "\<And>u. userConnections r u \<noteq> Some {}"
    unfolding live_inv_def by blast+
  have own: "\<And>u c. (\<exists>s. userConnections r u = Some s \<and> c \<in> s) \<longleftrightarrow> c \<in> conns_of r u"
    by (auto simp: conns_of_def split: option.splits)
  show ?thesis
    unfolding registry_inv_def
  proof (intro conjI allI impI ballI)
    fix u s c
    assume "userConnections r u = Some s \<and> c \<in> s"
    then have "c \<in> conns_of r u" using own by blast
    then show "c \<in> dom (connections r)" using d by blast
  next
    fix c
    assume "c \<in> dom (connections r)"
    then obtain u where u: "c \<in> conns_of r u" using d by blast
    show "\<exists>!u. \<exists>s. userConnections r u = Some s \<and> c \<in> s"
    proof (rule ex1I[of _ u])
      show "\<exists>s. userConnections r u = Some s \<and> c \<in> s" using u own by blast
    next
      fix u'
      assume "\<exists>s. userConnections r u' = Some s \<and> c \<in> s"
      then have "c \<in> conns_of r u'" using own by blast
      with u uniq show "u' = u" by blast
    qed
  next
    fix u
    show "userConnections r u \<noteq> Some {}" by (rule ne)
  qed
qed

lemma reachable_live_inv: "reachable r live \<Longrightarrow> live_inv r live"
  by (induction rule: reachable.induct)
    (simp_all add: live_inv_init live_inv_connect live_inv_close)

text \<open>
  C6 (as amended).  Starting from the empty registry, after every connection and every
  disconnection event the registry satisfies the invariant, provided each new connection
  is registered under an id that is not a key of \<open>connections\<close> at that moment.
\<close>

theorem registry_inv_reachable: "reachable r live \<Longrightarrow> registry_inv r"
  using reachable_live_inv live_inv_registry_inv by blast

text \<open>Two connections of two users under different ids, then the first one closes.\<close>

theorem registry_inv_reachable_witness:
  "registry_inv (handleClose ''7'' ''conn_a'' (handleConnection ''8'' ''conn_b'' 1
     (handleConnection ''7'' ''conn_a'' 0 (empty_registry :: string registry))))"
proof -
  have 1: "reachable (handleConnection ''7'' ''conn_a'' 0 (empty_registry :: string registry))
             {(''7'', ''conn_a'')}"
    using reachable.connect[OF reachable.init, of "''conn_a''" "''7''" 0]
    by (simp add: empty_registry_def)
  have 2: "reachable (handleConnection ''8'' ''conn_b'' 1
             (handleConnection ''7'' ''conn_a'' 0 (empty_registry :: string registry)))
             {(''8'', ''conn_b''), (''7'', ''conn_a'')}"
    using reachable.connect[OF 1, of "''conn_b''" "''8''" 1]
    by (simp add: connections_handleConnection empty_registry_def)
  have 3: "reachable (handleClose ''7'' ''conn_a'' (handleConnection ''8'' ''conn_b'' 1
             (handleConnection ''7'' ''conn_a'' 0 (empty_registry :: string registry))))
             ({(''8'', ''conn_b''), (''7'', ''conn_a'')} - {(''7'', ''conn_a'')})"
    using reachable.close[OF 2, of "''7''" "''conn_a''"] by simp
  from registry_inv_reachable[OF 3] show ?thesis .
qed

text \<open>
  C6 as stated fails when \<^verbatim>\<open>generateConnectionId\<close> returns an id that is still
  registered: after two users connect under the same id, the id is in both users' sets.
\<close>

theorem registry_inv_collision_counterexample:
  "\<not> registry_inv (handleConnection ''8'' ''conn_x'' 1
        (handleConnection ''7'' ''conn_x'' 0 (empty_registry :: string registry)))"
proof
  let ?r = "handleConnection ''8'' ''conn_x'' 1
        (handleConnection ''7'' ''conn_x'' 0 (empty_registry :: string registry))"
  assume "registry_inv ?r"
  then have u: "\<forall>c \<in> dom (connections ?r). \<exists>!u. \<exists>s. userConnections ?r u = Some s \<and> c \<in> s"
    unfolding registry_inv_def by blast
  have c: "''conn_x'' \<in> dom (connections ?r)"
    by (simp add: connections_handleConnection)
  have a: "\<exists>s. userConnections ?r ''7'' = Some s \<and> ''conn_x'' \<in> s"
    by (simp add: userConnections_handleConnection)
  have b: "\<exists>s. userConnections ?r ''8'' = Some s \<and> ''conn_x'' \<in> s"
    by (simp add: userConnections_handleConnection)
  from u c a b have "''7'' = ''8''" by blast
  then show False by simp
qed

subsection \<open>Registration\<close>

lemma is_word_not_space: "is_word c \<Longrightarrow> \<not> is_space c"
  by (auto simp: is_word_def is_space_def is_lower_def is_upper_def is_digit_def)

lemma is_word_encode_char: "is_word c \<Longrightarrow> encode_char c = [c]"
  by (auto simp: is_word_def encode_char_def is_lower_def is_upper_def is_digit_def)

lemma dropWhile_none: "list_all (\<lambda>c. \<not> P c) s \<Longrightarrow> dropWhile P s = s"
  by (cases s) simp_all

lemma trim_plain: "list_all (\<lambda>c. \<not> is_space c) s \<Longrightarrow> trim s = s"
proof -
  assume a: "list_all (\<lambda>c. \<not> is_space c) s"
  then have "list_all (\<lambda>c. \<not> is_space c) (rev s)"
    by (simp add: list_all_iff)
  with a show ?thesis
    by (simp add: trim_def dropWhile_none)
qed

lemma encode_plain: "list_all is_word s \<Longrightarrow> encode s = s"
  by (induction s) (simp_all add: encode_def is_word_encode_char)

lemma username_pattern_sanitized:
  assumes "username_pattern n"
  shows "encode (trim n) = n"
proof -
  from assms have w: "list_all is_word n" by (simp add: username_pattern_def)
  then have "list_all (\<lambda>c. \<not> is_space c) n"
    by (simp add: list_all_iff is_word_not_space)
  then have "trim n = n" by (rule trim_plain)
  with w show ?thesis by (simp add: encode_plain)
qed

lemma validated_username:
  assumes "validateRegistration isEmail b = []" and "rb_username b = JStr n"
  shows "username_pattern n"
proof -
  from assms(1) have "check ''username'' username_pattern (rb_username b) = []"
    by (simp add: validateRegistration_def)
  with assms(2) show ?thesis
    by (simp add: check_def split: if_splits)
qed

lemma sanitized_username:
  assumes "validateRegistration isEmail b = []" and "rb_username b = JStr n"
  shows "rb_username (sanitized_body (validated_body normalizeEmail b)) = JStr n"
  using username_pattern_sanitized[OF validated_username[OF assms]] assms(2)
  by (simp add: sanitized_body_def validated_body_def sanitize_field_def)

lemma find_username_Some:
  "n \<in> set (map u_username (users d)) \<Longrightarrow> \<exists>u. getUserByUsername n d = Some u"
  unfolding getUserByUsername_def
  by (cases "find (\<lambda>u. u_username u = n) (users d)") (auto simp: find_None_iff)

lemma registerSchema_parse_error:
  "registerSchema_parse b = Inl e \<Longrightarrow> \<exists>issues. e = ZodError issues"
  by (auto simp: registerSchema_parse_def Let_def split: option.splits)

lemma registerSchema_parse_username:
  "registerSchema_parse b = Inr validated \<Longrightarrow> rb_username b = JStr (vr_username validated)"
  by (cases "rb_username b") (auto simp: registerSchema_parse_def Let_def split: option.splits)

lemma register_handler_duplicate:
  assumes "rb_username b = JStr n" and "n \<in> set (map u_username (users d))"
  shows "r_status (fst (register_handler hashPassword JWT_SECRET now now' b d)) = 400
       \<and> snd (register_handler hashPassword JWT_SECRET now now' b d) = d
       \<and> (case registerSchema_parse b of
            Inr validated \<Rightarrow>
              fst (register_handler hashPassword JWT_SECRET now now' b d)
                = send 400 (Message ''Username already exists'')
          | Inl e \<Rightarrow>
              (\<exists>issues. e = ZodError issues
                 \<and> fst (register_handler hashPassword JWT_SECRET now now' b d)
                     = send 400 (MessageErrors ''Invalid input data'' issues)))"
proof (cases "registerSchema_parse b")
  case (Inl e)
  with registerSchema_parse_error obtain issues where "e = ZodError issues" by blast
  with Inl show ?thesis
    by (simp add: register_handler_def send_def)
next
  case (Inr validated)
  with registerSchema_parse_username[OF Inr] assms(1) have "vr_username validated = n"
    by simp
  with find_username_Some[OF assms(2)]
  obtain u where "getUserByUsername (vr_username validated) d = Some u"
    by blast
  with Inr show ?thesis
    by (simp add: register_handler_def send_def)
qed

text \<open>
  C1 (as amended).  When the username of the request is a string that is the username of a
  stored user, the route answers 400 and leaves the database as it was, so no user is
  created.  When a check of \<^verbatim>\<open>validateRegistration\<close> fails, the answer is
  \<^verbatim>\<open>Invalid input data\<close> with the errors of the checks.  When all checks pass, the
  handler gets the body as the sanitizers leave it: when that body passes the schema, the
  answer is the message \<^verbatim>\<open>Username already exists\<close>; when it does not, the answer is
  \<^verbatim>\<open>Invalid input data\<close> with the errors of the schema.
\<close>

theorem register_duplicate_username:
  assumes "rb_username b = JStr n" and "n \<in> set (map u_username (users d))"
  shows "r_status (fst (register_route isEmail normalizeEmail hashPassword JWT_SECRET now now' b d))
           = 400
       \<and> snd (register_route isEmail normalizeEmail hashPassword JWT_SECRET now now' b d) = d
       \<and> (if validateRegistration isEmail b \<noteq> []
          then fst (register_route isEmail normalizeEmail hashPassword JWT_SECRET now now' b d)
                 = send 400 (MessageErrors ''Invalid input data'' (validateRegistration isEmail b))
          else (case registerSchema_parse (sanitized_body (validated_body normalizeEmail b)) of
                  Inr validated \<Rightarrow>
                    fst (register_route isEmail normalizeEmail hashPassword JWT_SECRET now now' b d)
                      = send 400 (Message ''Username already exists'')
                | Inl e \<Rightarrow>
                    (\<exists>issues. e = ZodError issues
                       \<and> fst (register_route isEmail normalizeEmail hashPassword JWT_SECRET
                                now now' b d)
                           = send 400 (MessageErrors ''Invalid input data'' issues))))"
proof (cases "validateRegistration isEmail b = []")
  case False
  then show ?thesis
    by (simp add: register_route_def Let_def send_def)
next
  case True
  let ?b = "sanitized_body (validated_body normalizeEmail b)"
  have route: "register_route isEmail normalizeEmail hashPassword JWT_SECRET now now' b d
      = register_handler hashPassword JWT_SECRET now now' ?b d"
    using True by (simp add: register_route_def Let_def)
  have "rb_username ?b = JStr n"
    using sanitized_username[OF True assms(1)] .
  from register_handler_duplicate[OF this assms(2), of hashPassword JWT_SECRET now now']
  show ?thesis
    unfolding route using True by simp
qed

lemma alice_passes_validation:
  "validateRegistration (\<lambda>s. s = ''a2@example.com'') registration_of_alice = []"
  by (simp add: validateRegistration_def registration_of_alice_def check_def isLength_def
      username_pattern_def password_pattern_def fullName_pattern_def phone_pattern_def
      is_word_def is_lower_def is_upper_def is_digit_def is_special_def is_space_def
      is_accented_def is_line_terminator_def code_unit_def)

text \<open>
  A registration whose five fields pass every check and the schema, under the username
  of the stored user; the address is valid and \<^verbatim>\<open>normalizeEmail\<close> leaves it as it is.
\<close>

theorem register_duplicate_username_witness:
  "register_route (\<lambda>s. s = ''a2@example.com'') JStr (\<lambda>p. p) ''k'' 5 6 registration_of_alice db_alice
    = (send 400 (Message ''Username already exists''), db_alice)"
proof -
  let ?b = "registration_of_alice"
  let ?R = "register_route (\<lambda>s. s = ''a2@example.com'') JStr (\<lambda>p. p) ''k'' 5 6 ?b db_alice"
  have u: "rb_username ?b = JStr ''alice''"
    by (simp add: registration_of_alice_def)
  have s: "''alice'' \<in> set (map u_username (users db_alice))"
    by (simp add: db_alice_def alice_def)
  have p: "registerSchema_parse (sanitized_body (validated_body JStr ?b))
      = Inr \<lparr>vr_username = ''alice'', vr_email = ''a2@example.com'',
             vr_password = ''Passw0rd!'', vr_fullName = Given ''Alice Doe'',
             vr_phone = Given ''3001234567''\<rparr>"
    by (simp add: registerSchema_parse_def issue_def sanitized_body_def validated_body_def
        sanitize_field_def sanitizer_def registration_of_alice_def trim_def encode_def
        encode_char_def is_space_def code_unit_def)
  from register_duplicate_username[OF u s, of "\<lambda>s. s = ''a2@example.com''" JStr "\<lambda>p. p" "''k''" 5 6]
  have "snd ?R = db_alice" and "fst ?R = send 400 (Message ''Username already exists'')"
    using alice_passes_validation p by simp_all
  then show ?thesis by (simp add: prod_eq_iff)
qed

text \<open>
  C1 as stated fails for a body that passes the checks and not the schema: with the stored
  username and the phone given as a JSON number, whose string form the check of the phone
  accepts, the answer is 400 with \<^verbatim>\<open>Invalid input data\<close>, not
  \<^verbatim>\<open>Username already exists\<close>.
\<close>

theorem register_duplicate_username_counterexample:
  "''alice'' \<in> set (map u_username (users db_alice))
   \<and> register_route (\<lambda>s. s = ''a2@example.com'') JStr (\<lambda>p. p) ''k'' 5 6
        (registration_of_alice\<lparr>rb_phone := JNum 3001234567\<rparr>) db_alice
     = (send 400 (MessageErrors ''Invalid input data'' [''phone'']), db_alice)
   \<and> send 400 (MessageErrors ''Invalid input data'' [''phone''])
       \<noteq> send 400 (Message ''Username already exists'')"
proof -
  have v: "validateRegistration (\<lambda>s. s = ''a2@example.com'')
             (registration_of_alice\<lparr>rb_phone := JNum 3001234567\<rparr>) = []"
    by (simp add: validateRegistration_def registration_of_alice_def check_def isLength_def
      username_pattern_def password_pattern_def fullName_pattern_def phone_pattern_def
      is_word_def is_lower_def is_upper_def is_digit_def is_special_def is_space_def
      is_accented_def is_line_terminator_def code_unit_def number_toString_def)
  have h: "register_handler (\<lambda>p. p) ''k'' 5 6
        (sanitized_body (validated_body JStr (registration_of_alice\<lparr>rb_phone := JNum 3001234567\<rparr>)))
        db_alice
     = (send 400 (MessageErrors ''Invalid input data'' [''phone'']), db_alice)"
    by (simp add: register_handler_def registerSchema_parse_def issue_def sanitized_body_def
        validated_body_def sanitize_field_def sanitizer_def registration_of_alice_def trim_def
        encode_def encode_char_def is_space_def code_unit_def)
  have "''alice'' \<in> set (map u_username (users db_alice))"
    by (simp add: db_alice_def alice_def)
  moreover have "register_route (\<lambda>s. s = ''a2@example.com'') JStr (\<lambda>p. p) ''k'' 5 6
        (registration_of_alice\<lparr>rb_phone := JNum 3001234567\<rparr>) db_alice
     = (send 400 (MessageErrors ''Invalid input data'' [''phone'']), db_alice)"
    using v h by (simp add: register_route_def Let_def)
  moreover have "send 400 (MessageErrors ''Invalid input data'' [''phone''])
       \<noteq> send 400 (Message ''Username already exists'')"
    by (simp add: send_def)
  ultimately show ?thesis by blast
qed

subsection \<open>Approval of a service\<close>

lemma approve_handler_denied:
  "map_option u_role (getUser uid d) \<noteq> Some ''admin'' \<Longrightarrow>
     approve_handler now uid sid d = (send 403 (Message ''Admin access required''), d)"
  by (simp add: approve_handler_def Let_def)

lemma approveService_ok:
  "int4 n \<Longrightarrow>
     approveService now (Some n) d
       = (Inr (find (\<lambda>s. s_id s = n)
                 (map (\<lambda>s. if s_id s = n
                            then s\<lparr>s_isApproved := Some True, s_updatedAt := Some now\<rparr>
                            else s) (services d))),
          d\<lparr>services :=
               map (\<lambda>s. if s_id s = n
                          then s\<lparr>s_isApproved := Some True, s_updatedAt := Some now\<rparr>
                          else s) (services d)\<rparr>)"
  by (simp add: approveService_def Let_def)

lemma approve_handler_admin:
  assumes "map_option u_role (getUser uid d) = Some ''admin''" and "int4 n"
  shows "approve_handler now uid (Some n) d
       = (send 200 (ServiceJson (find (\<lambda>s. s_id s = n)
                 (map (\<lambda>s. if s_id s = n
                            then s\<lparr>s_isApproved := Some True, s_updatedAt := Some now\<rparr>
                            else s) (services d)))),
          d\<lparr>services :=
               map (\<lambda>s. if s_id s = n
                          then s\<lparr>s_isApproved := Some True, s_updatedAt := Some now\<rparr>
                          else s) (services d)\<rparr>)"
  using assms(1) unfolding approve_handler_def Let_def approveService_ok[OF assms(2)]
  by simp

lemma approved_after:
  assumes "x \<in> set (map (\<lambda>s. if s_id s = n
                          then s\<lparr>s_isApproved := Some True, s_updatedAt := Some now\<rparr>
                          else s) xs)"
    and "s_id x = n"
  shows "s_isApproved x = Some True"
proof -
  from assms(1) obtain s where
    x: "x = (if s_id s = n then s\<lparr>s_isApproved := Some True, s_updatedAt := Some now\<rparr> else s)"
    by (auto simp only: set_map image_iff)
  show ?thesis
  proof (cases "s_id s = n")
    case True
    have "x = s\<lparr>s_isApproved := Some True, s_updatedAt := Some now\<rparr>"
      using x unfolding if_P[OF True] .
    then show ?thesis by simp
  next
    case False
    have "x = s" using x unfolding if_not_P[OF False] .
    with False assms(2) show ?thesis by simp
  qed
qed

text \<open>
  C2.  When the caller's stored role is not \<^verbatim>\<open>admin\<close> (or the caller is no longer
  stored), the handler answers 403 and returns the database as it was, so no service's
  \<^verbatim>\<open>isApproved\<close> changes.  When the caller is an administrator and the id of the route
  is an integer of the column's range, the handler answers 200 and the services are the
  old ones with \<^verbatim>\<open>isApproved\<close> set to true (and \<^verbatim>\<open>updatedAt\<close> to the clock) on the
  service with that id; every service with that id is approved afterwards.
\<close>

theorem approve_handler_roles:
  "(map_option u_role (getUser uid d) \<noteq> Some ''admin'' \<longrightarrow>
      approve_handler now uid sid d = (send 403 (Message ''Admin access required''), d))
   \<and> (map_option u_role (getUser uid d) = Some ''admin'' \<and> sid = Some n \<and> int4 n \<longrightarrow>
        services (snd (approve_handler now uid sid d))
          = map (\<lambda>s. if s_id s = n then s\<lparr>s_isApproved := Some True, s_updatedAt := Some now\<rparr>
                      else s) (services d)
        \<and> (\<forall>s \<in> set (services (snd (approve_handler now uid sid d))).
              s_id s = n \<longrightarrow> s_isApproved s = Some True)
        \<and> r_status (fst (approve_handler now uid sid d)) = 200)"
proof (intro conjI impI)
  assume "map_option u_role (getUser uid d) \<noteq> Some ''admin''"
  then show "approve_handler now uid sid d = (send 403 (Message ''Admin access required''), d)"
    by (rule approve_handler_denied)
next
  assume a: "map_option u_role (getUser uid d) = Some ''admin'' \<and> sid = Some n \<and> int4 n"
  then have h: "approve_handler now uid sid d
       = (send 200 (ServiceJson (find (\<lambda>s. s_id s = n)
                 (map (\<lambda>s. if s_id s = n
                            then s\<lparr>s_isApproved := Some True, s_updatedAt := Some now\<rparr>
                            else s) (services d)))),
          d\<lparr>services :=
               map (\<lambda>s. if s_id s = n
                          then s\<lparr>s_isApproved := Some True, s_updatedAt := Some now\<rparr>
                          else s) (services d)\<rparr>)"
    using approve_handler_admin[of uid d n now] by blast
  show sv: "services (snd (approve_handler now uid sid d))
          = map (\<lambda>s. if s_id s = n then s\<lparr>s_isApproved := Some True, s_updatedAt := Some now\<rparr>
                      else s) (services d)"
    unfolding h by simp
  show "\<forall>s \<in> set (services (snd (approve_handler now uid sid d))).
              s_id s = n \<longrightarrow> s_isApproved s = Some True"
    unfolding sv using approved_after[of _ n now "services d"] by blast
  show "r_status (fst (approve_handler now uid sid d)) = 200"
    unfolding h by (simp add: send_def)
qed

text \<open>An ordinary user and an administrator ask for the approval of service 10.\<close>

theorem approve_handler_roles_witness:
  "approve_handler 99 1 (Some 10) db_services
     = (send 403 (Message ''Admin access required''), db_services)
   \<and> services (snd (approve_handler 99 2 (Some 10) db_services))
     = [plumbing\<lparr>s_isApproved := Some True, s_updatedAt := Some 99\<rparr>]
   \<and> r_status (fst (approve_handler 99 2 (Some 10) db_services)) = 200"
proof -
  have a: "map_option u_role (getUser 1 db_services) \<noteq> Some ''admin''"
    by (simp add: getUser_def db_services_def alice_def admin_bob_def)
  have b: "map_option u_role (getUser 2 db_services) = Some ''admin'' \<and> Some 10 = Some (10::int) \<and> int4 10"
    by (simp add: getUser_def db_services_def alice_def admin_bob_def int4_def)
  have s: "services db_services = [plumbing]"
    by (simp add: db_services_def)
  have i: "s_id plumbing = 10"
    by (simp add: plumbing_def)
  have "approve_handler 99 1 (Some 10) db_services
     = (send 403 (Message ''Admin access required''), db_services)"
    using approve_handler_roles[of 1 db_services 99 "Some 10" 10] a by blast
  moreover have "services (snd (approve_handler 99 2 (Some 10) db_services))
     = map (\<lambda>s. if s_id s = 10 then s\<lparr>s_isApproved := Some True, s_updatedAt := Some 99\<rparr>
                      else s) (services db_services)"
    and "r_status (fst (approve_handler 99 2 (Some 10) db_services)) = 200"
    using approve_handler_roles[of 2 db_services 99 "Some 10" 10] b by blast+
  ultimately show ?thesis
    unfolding s by (simp add: i)
qed

subsection \<open>Support tickets\<close>

lemma createSupportTicket_stores:
  "createSupportTicket now ticket d = (Inr row, d') \<Longrightarrow>
     supportTickets d' = supportTickets d @ [row]
     \<and> t_status row = column_default (Some Open) (it_status ticket)"
  by (auto simp: createSupportTicket_def Let_def split: if_splits option.splits)

lemma updateSupportTicket_status:
  "updateSupportTicket now tid p d = (Inr r, d') \<Longrightarrow>
     map t_status (supportTickets d')
       = map (\<lambda>r. if t_id r = tid then column_set (tp_status p) (t_status r) else t_status r)
           (supportTickets d)"
  by (auto simp: updateSupportTicket_def Let_def patch_ticket_def split: if_splits)

text \<open>
  C7 (as amended).  A ticket that is created is stored, as the last row of the table, with
  the status its request supplies, and with \<^verbatim>\<open>open\<close> when the request supplies none.
  An update sets the status of the ticket with the given id to the status the patch
  supplies, whatever the stored one is, and keeps the stored one when the patch supplies
  none; the other tickets keep theirs.  Nothing orders the new status after the old one.
\<close>

theorem ticket_status_as_supplied:
  "(createSupportTicket now ticket d = (Inr row, d') \<longrightarrow>
      supportTickets d' = supportTickets d @ [row]
      \<and> t_status row = column_default (Some Open) (it_status ticket)
      \<and> (it_status ticket = Absent \<longrightarrow> t_status row = Some Open))
   \<and> (updateSupportTicket now2 tid p d1 = (Inr r, d2) \<longrightarrow>
      map t_status (supportTickets d2)
        = map (\<lambda>r. if t_id r = tid then column_set (tp_status p) (t_status r) else t_status r)
            (supportTickets d1))"
  using createSupportTicket_stores[of now ticket d row d']
    updateSupportTicket_status[of now2 tid p d1 r d2]
  by (auto simp: column_default_def)

text \<open>
  A request without a status is stored as an open ticket, and an update then moves that
  ticket to in progress.
\<close>

theorem ticket_status_as_supplied_witness:
  "map t_status (supportTickets (snd (createSupportTicket 1000 help_request db_empty)))
     = [Some Open]
   \<and> supportTickets (snd (createSupportTicket 1000 help_request db_empty))
     = [projr (fst (createSupportTicket 1000 help_request db_empty))]
   \<and> map t_status (supportTickets (snd (updateSupportTicket 2000 1 (status_patch In_progress)
        (snd (createSupportTicket 1000 help_request db_empty)))))
     = [Some In_progress]"
proof -
  let ?c = "createSupportTicket 1000 help_request db_empty"
  let ?u = "updateSupportTicket 2000 1 (status_patch In_progress) (snd ?c)"
  have c: "?c = (Inr (projr (fst ?c)), snd ?c)"
    by (simp add: createSupportTicket_def Let_def help_request_def db_empty_def tickets_ok_def
        column_default_def int4_def)
  have id1: "t_id (projr (fst ?c)) = 1"
    by (simp add: createSupportTicket_def Let_def help_request_def db_empty_def tickets_ok_def
        column_default_def int4_def)
  have u: "?u = (Inr (projr (fst ?u)), snd ?u)"
    by (simp add: createSupportTicket_def updateSupportTicket_def Let_def help_request_def
        db_empty_def tickets_ok_def column_default_def column_set_def int4_def patch_ticket_def
        status_patch_def or_else_def)
  have absent: "it_status help_request = Absent"
    by (simp add: help_request_def)
  have empty: "supportTickets db_empty = []"
    by (simp add: db_empty_def)
  from ticket_status_as_supplied[of 1000 help_request db_empty "projr (fst ?c)" "snd ?c"
      2000 1 "status_patch In_progress" "snd ?c" "projr (fst ?u)" "snd ?u"] c u absent
  have stored: "supportTickets (snd ?c) = supportTickets db_empty @ [projr (fst ?c)]"
    and "t_status (projr (fst ?c)) = Some Open"
    and "map t_status (supportTickets (snd ?u))
      = map (\<lambda>r. if t_id r = 1 then column_set (tp_status (status_patch In_progress)) (t_status r)
                  else t_status r) (supportTickets (snd ?c))"
    by (simp_all add: column_default_def)
  then show ?thesis
    unfolding stored empty by (simp add: id1 status_patch_def column_set_def)
qed

text \<open>
  C7 as stated fails twice: a request that supplies the status \<^verbatim>\<open>closed\<close> creates a
  closed ticket, and an update moves that ticket back to \<^verbatim>\<open>open\<close>, which is before
  \<^verbatim>\<open>closed\<close> in the lifecycle.
\<close>

theorem ticket_lifecycle_counterexample:
  "t_status (projr (fst (createSupportTicket 1000 (help_request\<lparr>it_status := Given Closed\<rparr>) db_empty)))
     = Some Closed
   \<and> map t_status (supportTickets (snd (updateSupportTicket 2000 1 (status_patch Open)
        (snd (createSupportTicket 1000 (help_request\<lparr>it_status := Given Closed\<rparr>) db_empty)))))
     = [Some Open]
   \<and> \<not> lifecycle_forward Closed Open"
  by (simp add: createSupportTicket_def updateSupportTicket_def Let_def help_request_def
      db_empty_def tickets_ok_def column_default_def column_set_def int4_def patch_ticket_def
      status_patch_def or_else_def lifecycle_forward_def)

subsection \<open>Schema failures in the category handler\<close>

text \<open>
  C3.  The handler of \<^verbatim>\<open>POST /api/categories\<close> does not do what the claim says of every
  handler: a body without a name fails the schema, and the handler answers 500 with
  \<^verbatim>\<open>Failed to create category\<close> and no field errors, leaving the database as it was.
  The registration handler answers a body that fails its schema with 400 and the schema's
  errors.
\<close>

theorem post_categories_schema_failure:
  "post_categories_handler now
      \<lparr>cb_id = Undefined, cb_name = Undefined, cb_description = JStr ''Home repairs'',
       cb_icon = Undefined, cb_isActive = Undefined, cb_createdAt = Undefined,
       cb_updatedAt = Undefined\<rparr> d
     = (send 500 (Message ''Failed to create category''), d)
   \<and> register_handler hashPassword JWT_SECRET now now'
      \<lparr>rb_username = Undefined, rb_email = JStr ''a@example.com'',
       rb_password = JStr ''Passw0rd!'', rb_fullName = Undefined, rb_phone = Undefined\<rparr> d
     = (send 400 (MessageErrors ''Invalid input data'' [''username'']), d)"
  by (simp add: post_categories_handler_def insertCategorySchema_parse_def
      register_handler_def registerSchema_parse_def issue_def)

subsection \<open>Members that the storage does not have\<close>

lemma createPaymentRecord_no_member:
  "''createPaymentRecord'' \<notin> set DatabaseStorage_members"
  by (simp add: DatabaseStorage_members_def)

lemma getUserTwoFactor_no_member:
  "''getUserTwoFactor'' \<notin> set DatabaseStorage_members"
  by (simp add: DatabaseStorage_members_def)

lemma removeUsedBackupCode_no_member:
  "''removeUsedBackupCode'' \<notin> set DatabaseStorage_members"
  by (simp add: DatabaseStorage_members_def)

text \<open>
  C4.  For a payment of 5000 with document type \<^verbatim>\<open>CC\<close>, \<open>createPSEPayment\<close> passes
  both checks and then calls \<^verbatim>\<open>storage.createPaymentRecord\<close>, which the storage does not
  have: the call throws, no record is stored and no payment intent is returned.
\<close>

theorem createPSEPayment_valid_input_throws:
  "createPSEPayment ''pse_1700000000000_k3x9ab''
      \<lparr>pse_bank = ''bancolombia'', pse_documentType = ''CC'',
       pse_documentNumber = ''1020304050'', pse_amount = Num 5000,
       pse_description = ''Donation''\<rparr> d
     = (Inl (TypeError ''storage.createPaymentRecord is not a function''), d)"
  by (simp add: createPSEPayment_def storage_createPaymentRecord_def not_a_function_def)

text \<open>
  C8.  \<open>createPSEPayment\<close> throws for every input and never changes the database: the
  error of the amount when the amount is below 5000, else the error of the document type
  when the type is not one of the three, and else the \<^verbatim>\<open>TypeError\<close> of the missing
  storage member.  So it also throws for an amount of 20000 with type \<^verbatim>\<open>NIT\<close>, where
  the claim says it does not.
\<close>

theorem createPSEPayment_always_throws:
  "fst (createPSEPayment paymentId payment d)
     = (if number_less (pse_amount payment) 5000 then Inl (Error monto_minimo)
        else if pse_documentType payment \<notin> set [''CC'', ''CE'', ''NIT'']
        then Inl (Error tipo_invalido)
        else Inl (TypeError ''storage.createPaymentRecord is not a function''))
   \<and> snd (createPSEPayment paymentId payment d) = d
   \<and> fst (createPSEPayment paymentId
             \<lparr>pse_bank = ''nequi'', pse_documentType = ''NIT'', pse_documentNumber = ''900123456'',
              pse_amount = Num 20000, pse_description = ''Listing fee''\<rparr> d)
     = Inl (TypeError ''storage.createPaymentRecord is not a function'')"
  by (simp add: createPSEPayment_def storage_createPaymentRecord_def not_a_function_def)

text \<open>
  C9.  \<open>validate2FALogin\<close> starts with \<^verbatim>\<open>storage.getUserTwoFactor\<close>, which the storage
  does not have: for every user and every token the call throws, so the function returns
  neither true nor false.  The database is as it was.
\<close>

theorem validate2FALogin_throws:
  "validate2FALogin verify2FAToken userId token d
     = (Inl (TypeError ''storage.getUserTwoFactor is not a function''), d)"
  by (simp add: validate2FALogin_def storage_getUserTwoFactor_def not_a_function_def)

end
